theory Spec2Isabelle
  imports Main "HOL-Library.Sublist" "HOL-Library.Word"
begin

section \<open>Data model\<close>

text \<open>
  Text is modelled as \<open>string\<close> (a list of 8-bit characters), byte payloads as lists of
  8-bit words, and a filesystem path as the list of its components below the root, so that
  \<open>Path(td) / "input.pdf"\<close> is \<open>td @ [''input.pdf'']\<close> and \<open>Path("/dev/null")\<close> is
  \<open>[''dev'', ''null'']\<close>.  Logging is not modelled.
\<close>

type_synonym bytes = "8 word list"
type_synonym path = "string list"

text \<open>The module-level settings read from the process environment (lines 30-41).\<close>

record config =
  BEARER_TOKEN :: string
  KINDLE_EMAIL :: string
  SMTP_HOST :: string
  SMTP_PORT :: int
  SMTP_USER :: string
  SMTP_PASS :: string
  SMTP_FROM :: string
  SMTP_TLS :: bool
  EBOOK_CONVERT_BIN :: string
  MAX_PDF_BYTES :: int

text \<open>\<open>HTTPException(status_code, detail)\<close> as raised by the handlers.\<close>

datatype http_exception = HTTPException int string

text \<open>
  Every other exception: \<open>RuntimeError(msg)\<close>, or an operating-system error that the
  code does not translate, carried with its \<open>str()\<close> text.
\<close>

datatype exn = RuntimeError string | OSError string | IndexError

fun str_exn :: "exn \<Rightarrow> string" where
  "str_exn (RuntimeError m) = m"
| "str_exn (OSError m) = m"
| "str_exn IndexError = ''list index out of range''"

text \<open>What leaves a function by \<open>raise\<close>.\<close>

datatype raised = Http http_exception | Exn exn

section \<open>Authorizer: \<open>require_bearer\<close>\<close>

text \<open>\<open>str.startswith\<close>.\<close>

definition startswith :: "string \<Rightarrow> string \<Rightarrow> bool" where
  "startswith s p = (take (length p) s = p)"

text \<open>
  \<open>s.split(sep, 1)\<close> for a one-character separator: the text before the first
  separator and the text after it, or the whole text alone when there is no separator.
\<close>

definition split1 :: "char \<Rightarrow> string \<Rightarrow> string list" where
  "split1 sep s =
     (if sep \<in> set s
      then [takeWhile (\<lambda>c. c \<noteq> sep) s, tl (dropWhile (\<lambda>c. c \<noteq> sep) s)]
      else [s])"

text \<open>
  \<open>str.isspace\<close> on the 8-bit code points: tab to carriage return, the four
  separators 28-31, space, NEL (133) and the no-break space (160).
\<close>

definition isspace :: "char \<Rightarrow> bool" where
  "isspace c = (let n = (of_char c :: nat)
                in (9 \<le> n \<and> n \<le> 13) \<or> (28 \<le> n \<and> n \<le> 32) \<or> n = 133 \<or> n = 160)"

text \<open>\<open>str.strip()\<close> without arguments.\<close>

definition strip :: "string \<Rightarrow> string" where
  "strip s = rev (dropWhile isspace (rev (dropWhile isspace s)))"

text \<open>
  Lines 47-67.  \<open>not authorization\<close> holds for \<open>None\<close> and for the empty text.  The
  subscript \<open>[1]\<close> of the split result raises IndexError when the list has one element;
  that branch is kept although the prefix test excludes it.
\<close>

definition require_bearer :: "config \<Rightarrow> string option \<Rightarrow> raised + unit" where
  "require_bearer cfg authorization =
     (case authorization of
        None \<Rightarrow> Inl (Http (HTTPException 401 ''Missing bearer token''))
      | Some a \<Rightarrow>
          if a = [] then Inl (Http (HTTPException 401 ''Missing bearer token''))
          else if \<not> startswith a ''Bearer '' then
            Inl (Http (HTTPException 401 ''Missing bearer token''))
          else (case split1 CHR '' '' a of
                  _ # rest # _ \<Rightarrow>
                    (let token = strip rest in
                     if token = [] then Inl (Http (HTTPException 401 ''Missing bearer token''))
                     else if token \<noteq> BEARER_TOKEN cfg then
                       Inl (Http (HTTPException 403 ''Invalid bearer token''))
                     else Inr ())
                | _ \<Rightarrow> Inl (Exn IndexError)))"

text \<open>The token the code compares: what follows the seven characters of the prefix, stripped.\<close>

definition bearer_token_of :: "string \<Rightarrow> string" where
  "bearer_token_of a = strip (drop 7 a)"

section \<open>The world outside the process\<close>

text \<open>
  The filesystem maps a path to what is there.  \<open>exists\<close> and \<open>stat().st_size\<close> are
  the two queries the code makes; the size of a directory is whatever the operating
  system reports, a parameter of the environment.
\<close>

datatype node = File bytes | Dir

type_synonym filesystem = "path \<rightharpoonup> node"

record email_attachment =
  payload :: bytes
  maintype :: string
  subtype :: string
  filename :: string

record email_message =
  msg_From :: string
  msg_To :: string
  msg_Subject :: string
  msg_content :: string
  msg_attachments :: "email_attachment list"

text \<open>
  The actions on the outside world, in the order they happen: workspace allocation and
  removal, the child process, and the commands of a mail session (\<open>Connect\<close> carries
  host, port and timeout in seconds; \<open>Quit\<close> is what leaving the \<open>with\<close> block of an
  open session does).
\<close>

datatype event =
    Mkdtemp path
  | Rmtree path
  | Run "string list"
  | Connect string int int
  | StartTLS
  | Login string string
  | SendMessage email_message
  | Quit

text \<open>
  How the mail library answers a command: it returns, raises
  \<open>SMTPAuthenticationError\<close>, or raises anything else; an exception carries its
  \<open>str()\<close> text.
\<close>

datatype smtp_reply = SMTPOk | SMTPAuthenticationError string | SMTPFailure string

text \<open>
  How \<open>subprocess.run(cmd, check=True, ...)\<close> ends: the command is not found, it cannot
  be started for another reason, or it runs to an exit status with its two captured
  streams (given as the text they decode to; \<open>None\<close> when nothing was captured).
\<close>

datatype proc_outcome =
    FileNotFoundError
  | SpawnError string
  | Completed int "string option" "string option"

record world =
  fs :: filesystem
  events :: "event list"

text \<open>
  The behaviour of the collaborators, which the code cannot choose: the name (or the
  failure) of \<open>mkdtemp\<close>, whether a write fails, what the child process does to the
  filesystem and how it ends, and what the mail server answers to a command after the
  history so far.
\<close>

record env =
  mkdtemp :: "filesystem \<Rightarrow> string + path"
  write_error :: "path \<Rightarrow> string option"
  subprocess_run :: "string list \<Rightarrow> filesystem \<Rightarrow> proc_outcome \<times> filesystem"
  smtp_server :: "event list \<Rightarrow> event \<Rightarrow> smtp_reply"
  dir_st_size :: nat

definition exists_path :: "filesystem \<Rightarrow> path \<Rightarrow> bool" where
  "exists_path f p = (f p \<noteq> None)"

definition st_size :: "env \<Rightarrow> filesystem \<Rightarrow> path \<Rightarrow> nat" where
  "st_size en f p = (case f p of Some (File b) \<Rightarrow> length b | _ \<Rightarrow> dir_st_size en)"

text \<open>\<open>Path.read_bytes\<close>: fails on a directory (and on a missing file).\<close>

definition read_bytes :: "filesystem \<Rightarrow> path \<Rightarrow> exn + bytes" where
  "read_bytes f p =
     (case f p of
        Some (File b) \<Rightarrow> Inr b
      | Some Dir \<Rightarrow> Inl (OSError ''Is a directory'')
      | None \<Rightarrow> Inl (OSError ''No such file or directory''))"

text \<open>\<open>Path.write_bytes\<close>: replaces the file, unless the environment makes it fail.\<close>

definition write_bytes :: "env \<Rightarrow> path \<Rightarrow> bytes \<Rightarrow> world \<Rightarrow> (exn + unit) \<times> world" where
  "write_bytes en p b w =
     (case write_error en p of
        Some m \<Rightarrow> (Inl (OSError m), w)
      | None \<Rightarrow> (Inr (), w\<lparr>fs := (fs w)(p \<mapsto> File b)\<rparr>))"

text \<open>\<open>str(path)\<close> and \<open>path.name\<close>.\<close>

definition path_str :: "path \<Rightarrow> string" where
  "path_str p = (if p = [] then ''/'' else concat (map (\<lambda>c. ''/'' @ c) p))"

definition path_name :: "path \<Rightarrow> string" where
  "path_name p = (if p = [] then [] else last p)"

text \<open>The slice \<open>s[-n:]\<close> for a positive \<open>n\<close>: the last \<open>n\<close> characters, or all of \<open>s\<close>.\<close>

definition last_chars :: "nat \<Rightarrow> string \<Rightarrow> string" where
  "last_chars n s = drop (length s - n) s"

text \<open>\<open>(x or b"").decode(errors="replace")\<close> on a captured stream.\<close>

definition or_empty :: "string option \<Rightarrow> string" where
  "or_empty t = (case t of None \<Rightarrow> [] | Some s \<Rightarrow> s)"

section \<open>Workspace: \<open>tempfile.TemporaryDirectory\<close>\<close>

text \<open>
  Leaving the block removes the directory and everything below it.  The removal is taken
  to succeed: the library passes over a directory that is already gone and resets
  permissions that stand in the way.
\<close>

definition rmtree :: "path \<Rightarrow> world \<Rightarrow> world" where
  "rmtree td w =
     w\<lparr>fs := (\<lambda>p. if prefix td p then None else fs w p),
       events := events w @ [Rmtree td]\<rparr>"

text \<open>
  \<open>with tempfile.TemporaryDirectory() as td: body\<close>.  Creation can fail, and then the
  body does not run.  Otherwise the body runs and the directory is removed when the body
  is left, whether it returned (\<open>None\<close>) or raised (\<open>Some r\<close>).
\<close>

definition with_TemporaryDirectory ::
  "env \<Rightarrow> (path \<Rightarrow> world \<Rightarrow> raised option \<times> world) \<Rightarrow> world \<Rightarrow> raised option \<times> world" where
  "with_TemporaryDirectory en body w =
     (case mkdtemp en (fs w) of
        Inl m \<Rightarrow> (Some (Exn (OSError m)), w)
      | Inr td \<Rightarrow>
          (case body td (w\<lparr>fs := (fs w)(td \<mapsto> Dir), events := events w @ [Mkdtemp td]\<rparr>) of
             (r, w') \<Rightarrow> (r, rmtree td w')))"

section \<open>Converter: \<open>pdf_to_epub\<close>\<close>

text \<open>
  Lines 70-97.  The child process changes the filesystem and ends in one of the three
  ways; a non-zero status is \<open>CalledProcessError\<close> because of \<open>check=True\<close>.  An error of
  starting the process other than \<open>FileNotFoundError\<close> is not caught here.
\<close>

definition pdf_to_epub ::
  "config \<Rightarrow> env \<Rightarrow> path \<Rightarrow> path \<Rightarrow> world \<Rightarrow> (exn + unit) \<times> world" where
  "pdf_to_epub cfg en pdf_path epub_path w =
     (let cmd = [EBOOK_CONVERT_BIN cfg, path_str pdf_path, path_str epub_path] in
      case subprocess_run en cmd (fs w) of
        (outcome, f') \<Rightarrow>
          (let w' = w\<lparr>fs := f', events := events w @ [Run cmd]\<rparr> in
           case outcome of
             FileNotFoundError \<Rightarrow>
               (Inl (RuntimeError
                  ''Conversion failed: ebook-convert not found (install calibre)''), w')
           | SpawnError m \<Rightarrow> (Inl (OSError m), w')
           | Completed returncode out err \<Rightarrow>
               if returncode \<noteq> 0 then
                 (let stderr = or_empty err in
                  (Inl (RuntimeError (''Conversion failed: '' @ last_chars 2000 stderr)), w'))
               else if \<not> exists_path f' epub_path \<or> st_size en f' epub_path = 0 then
                 (Inl (RuntimeError ''Conversion failed: output EPUB was not created''), w')
               else (Inr (), w')))"

section \<open>Mail dispatcher: \<open>send_email_with_attachment\<close>\<close>

text \<open>One command to the mail server: its answer depends on the history, and it is recorded.\<close>

definition smtp_do :: "env \<Rightarrow> event \<Rightarrow> world \<Rightarrow> smtp_reply \<times> world" where
  "smtp_do en a w = (smtp_server en (events w) a, w\<lparr>events := events w @ [a]\<rparr>)"

text \<open>
  The body of the session block (lines 136-145 and again 237-245): TLS when configured,
  login when a user name is configured, then the message; the first command that raises
  ends the body.
\<close>

definition smtp_session_body ::
  "config \<Rightarrow> env \<Rightarrow> email_message \<Rightarrow> world \<Rightarrow> smtp_reply \<times> world" where
  "smtp_session_body cfg en msg w =
     (case (if SMTP_TLS cfg then smtp_do en StartTLS w else (SMTPOk, w)) of
        (SMTPOk, w1) \<Rightarrow>
          (case (if SMTP_USER cfg \<noteq> [] then smtp_do en (Login (SMTP_USER cfg) (SMTP_PASS cfg)) w1
                 else (SMTPOk, w1)) of
             (SMTPOk, w2) \<Rightarrow> smtp_do en (SendMessage msg) w2
           | (r, w2) \<Rightarrow> (r, w2))
      | (r, w1) \<Rightarrow> (r, w1))"

text \<open>
  \<open>with smtplib.SMTP(SMTP_HOST, SMTP_PORT, timeout=30) as s: body\<close>.  When the
  connection cannot be opened there is no session to leave.  Otherwise the session is
  left with \<open>Quit\<close> whatever the body did, and an exception of \<open>Quit\<close> is the one that
  propagates.
\<close>

definition smtp_session ::
  "config \<Rightarrow> env \<Rightarrow> email_message \<Rightarrow> world \<Rightarrow> smtp_reply \<times> world" where
  "smtp_session cfg en msg w =
     (case smtp_do en (Connect (SMTP_HOST cfg) (SMTP_PORT cfg) 30) w of
        (SMTPOk, w1) \<Rightarrow>
          (case smtp_session_body cfg en msg w1 of
             (r, w2) \<Rightarrow>
               (case smtp_do en Quit w2 of
                  (SMTPOk, w3) \<Rightarrow> (r, w3)
                | (q, w3) \<Rightarrow> (q, w3)))
      | (r, w1) \<Rightarrow> (r, w1))"

text \<open>The message of lines 119-129: the four headers, the text and the one attachment.\<close>

definition attachment_message ::
  "config \<Rightarrow> string \<Rightarrow> string \<Rightarrow> string \<Rightarrow> path \<Rightarrow> bytes \<Rightarrow> email_message" where
  "attachment_message cfg subject body to_addr attachment_path data =
     \<lparr>msg_From = SMTP_FROM cfg, msg_To = to_addr, msg_Subject = subject,
      msg_content = body,
      msg_attachments =
        [\<lparr>payload = data, maintype = ''application'', subtype = ''epub+zip'',
          filename = path_name attachment_path\<rparr>]\<rparr>"

text \<open>Lines 100-154.  Reading the attachment happens outside the \<open>try\<close>.\<close>

definition send_email_with_attachment ::
  "config \<Rightarrow> env \<Rightarrow> string \<Rightarrow> string \<Rightarrow> string \<Rightarrow> path \<Rightarrow> world \<Rightarrow> (exn + unit) \<times> world" where
  "send_email_with_attachment cfg en subject body to_addr attachment_path w =
     (if SMTP_HOST cfg = [] then (Inl (RuntimeError ''SMTP_HOST is not set''), w)
      else if \<not> exists_path (fs w) attachment_path then
        (Inl (RuntimeError ''Attachment not found''), w)
      else
        (case read_bytes (fs w) attachment_path of
           Inl e \<Rightarrow> (Inl e, w)
         | Inr data \<Rightarrow>
             (let msg = attachment_message cfg subject body to_addr attachment_path data in
              case smtp_session cfg en msg w of
                (SMTPOk, w') \<Rightarrow> (Inr (), w')
              | (SMTPAuthenticationError _, w') \<Rightarrow>
                  (Inl (RuntimeError
                     ''Email failed: SMTP authentication failed (check SMTP_USER/SMTP_PASS)''),
                   w')
              | (SMTPFailure m, w') \<Rightarrow> (Inl (RuntimeError (''Email failed: '' @ m)), w'))))"

section \<open>Request orchestrator\<close>

record upload =
  upload_filename :: "string option"
  content_type :: "string option"
  upload_data :: bytes

text \<open>
  What the client gets: the JSON body \<open>{"ok": ..., "sent_to": ...}\<close> with status 200, or
  what the handler raised.  The framework answers a raised \<open>HTTPException\<close> with its status
  and detail, and any other exception with status 500.
\<close>

datatype response = JSONResponse bool string | Raised raised

fun status_code :: "response \<Rightarrow> int" where
  "status_code (JSONResponse _ _) = 200"
| "status_code (Raised (Http (HTTPException c _))) = c"
| "status_code (Raised (Exn _)) = 500"

text \<open>How an f-string shows an optional text.\<close>

definition fmt_opt :: "string option \<Rightarrow> string" where
  "fmt_opt t = (case t of None \<Rightarrow> ''None'' | Some s \<Rightarrow> s)"

text \<open>The body of the \<open>with\<close> block of \<open>/convert\<close>, lines 180-203.\<close>

definition convert_body ::
  "config \<Rightarrow> env \<Rightarrow> bytes \<Rightarrow> path \<Rightarrow> world \<Rightarrow> raised option \<times> world" where
  "convert_body cfg en raw td w =
     (let pdf_path = td @ [''input.pdf''];
          epub_path = td @ [''output.epub''] in
      case write_bytes en pdf_path raw w of
        (Inl e, w1) \<Rightarrow> (Some (Exn e), w1)
      | (Inr _, w1) \<Rightarrow>
          (case pdf_to_epub cfg en pdf_path epub_path w1 of
             (Inl e, w2) \<Rightarrow> (Some (Http (HTTPException 500 (str_exn e))), w2)
           | (Inr _, w2) \<Rightarrow>
               (case send_email_with_attachment cfg en ''Your converted EPUB''
                       ''Attached is the EPUB converted from your PDF.''
                       (KINDLE_EMAIL cfg) epub_path w2 of
                  (Inl e, w3) \<Rightarrow> (Some (Http (HTTPException 502 (str_exn e))), w3)
                | (Inr _, w3) \<Rightarrow> (None, w3))))"

text \<open>\<open>POST /convert\<close>, lines 157-206.\<close>

definition convert_pdf_to_epub_endpoint ::
  "config \<Rightarrow> env \<Rightarrow> string option \<Rightarrow> upload \<Rightarrow> world \<Rightarrow> response \<times> world" where
  "convert_pdf_to_epub_endpoint cfg en authorization file w =
     (case require_bearer cfg authorization of
        Inl r \<Rightarrow> (Raised r, w)
      | Inr _ \<Rightarrow>
          if content_type file \<notin> {Some ''application/pdf'', Some ''application/octet-stream''}
          then (Raised (Http (HTTPException 400
                  (''Expected PDF, got '' @ fmt_opt (content_type file)))), w)
          else
            (let raw = upload_data file in
             if int (length raw) > MAX_PDF_BYTES cfg then
               (Raised (Http (HTTPException 413 ''PDF too large'')), w)
             else
               (case with_TemporaryDirectory en (convert_body cfg en raw) w of
                  (Some r, w') \<Rightarrow> (Raised r, w')
                | (None, w') \<Rightarrow> (JSONResponse True (KINDLE_EMAIL cfg), w'))))"

text \<open>
  \<open>POST /test-email\<close>, lines 208-252.  Any exception of the first send leads to the
  plain send written out in the handler.
\<close>

definition test_email_fallback_msg :: "config \<Rightarrow> email_message" where
  "test_email_fallback_msg cfg =
     \<lparr>msg_From = SMTP_FROM cfg, msg_To = ''ozzy.dave@gmail.com'',
      msg_Subject = ''SMTP test (no attachment)'',
      msg_content = ''If you received this, SMTP is working.'',
      msg_attachments = []\<rparr>"

definition test_email ::
  "config \<Rightarrow> env \<Rightarrow> string option \<Rightarrow> world \<Rightarrow> response \<times> world" where
  "test_email cfg en authorization w =
     (case require_bearer cfg authorization of
        Inl r \<Rightarrow> (Raised r, w)
      | Inr _ \<Rightarrow>
          (case send_email_with_attachment cfg en ''SMTP test (no attachment)''
                  ''If you received this, SMTP is working.''
                  (KINDLE_EMAIL cfg) [''dev'', ''null''] w of
             (Inr _, w1) \<Rightarrow> (JSONResponse True (KINDLE_EMAIL cfg), w1)
           | (Inl _, w1) \<Rightarrow>
               if SMTP_HOST cfg = [] then
                 (Raised (Http (HTTPException 502 ''SMTP_HOST is not set'')), w1)
               else
                 (case smtp_session cfg en (test_email_fallback_msg cfg) w1 of
                    (SMTPOk, w2) \<Rightarrow> (JSONResponse True (KINDLE_EMAIL cfg), w2)
                  | (SMTPAuthenticationError m, w2) \<Rightarrow>
                      (Raised (Http (HTTPException 502 m)), w2)
                  | (SMTPFailure m, w2) \<Rightarrow> (Raised (Http (HTTPException 502 m)), w2))))"

section \<open>Notions used to state the properties\<close>

text \<open>
  The three kinds of credential of the specification, on the header value: absent, not
  beginning with the prefix or with an empty token after trimming; a well-formed token
  that differs from the secret; a well-formed token equal to the secret.
\<close>

definition credential_missing_or_malformed :: "string option \<Rightarrow> bool" where
  "credential_missing_or_malformed h =
     (case h of None \<Rightarrow> True
      | Some a \<Rightarrow> \<not> startswith a ''Bearer '' \<or> bearer_token_of a = [])"

definition credential_wrong :: "config \<Rightarrow> string option \<Rightarrow> bool" where
  "credential_wrong cfg h =
     (case h of None \<Rightarrow> False
      | Some a \<Rightarrow> startswith a ''Bearer '' \<and> bearer_token_of a \<noteq> []
                  \<and> bearer_token_of a \<noteq> BEARER_TOKEN cfg)"

definition credential_accepted :: "config \<Rightarrow> string option \<Rightarrow> bool" where
  "credential_accepted cfg h =
     (case h of None \<Rightarrow> False
      | Some a \<Rightarrow> startswith a ''Bearer '' \<and> bearer_token_of a \<noteq> []
                  \<and> bearer_token_of a = BEARER_TOKEN cfg)"

definition accepted_type :: "upload \<Rightarrow> bool" where
  "accepted_type file =
     (content_type file = Some ''application/pdf''
      \<or> content_type file = Some ''application/octet-stream'')"

text \<open>The events that \<open>w'\<close> has and its predecessor \<open>w\<close> has not.\<close>

definition new_events :: "world \<Rightarrow> world \<Rightarrow> event list" where
  "new_events w w' = drop (length (events w)) (events w')"

text \<open>
  The world in which the converter is started: the workspace \<open>td\<close> exists and holds
  the upload as \<open>input.pdf\<close>.
\<close>

definition converter_start :: "bytes \<Rightarrow> path \<Rightarrow> world \<Rightarrow> world" where
  "converter_start raw td w =
     w\<lparr>fs := (fs w)(td \<mapsto> Dir, td @ [''input.pdf''] \<mapsto> File raw),
       events := events w @ [Mkdtemp td]\<rparr>"

definition is_workspace_event :: "event \<Rightarrow> bool" where
  "is_workspace_event e = (case e of Mkdtemp _ \<Rightarrow> True | Rmtree _ \<Rightarrow> True | _ \<Rightarrow> False)"

section \<open>The session protocol as the specification words it\<close>

text \<open>
  The specification's order of a delivery: open the connection with the 30 second
  timeout, upgrade to TLS when \<open>useTLS\<close> is set, authenticate when a user name is
  configured, transmit the message.  The code's sequence of commands is compared with
  this list below.
\<close>

definition spec_session_order :: "config \<Rightarrow> email_message \<Rightarrow> event list" where
  "spec_session_order cfg msg =
     [Connect (SMTP_HOST cfg) (SMTP_PORT cfg) 30]
     @ (if SMTP_TLS cfg then [StartTLS] else [])
     @ (if SMTP_USER cfg \<noteq> [] then [Login (SMTP_USER cfg) (SMTP_PASS cfg)] else [])
     @ [SendMessage msg]"

text \<open>
  A sequence of commands follows the order when it is empty (nothing was attempted), or
  only the connection attempt (which failed), or an initial part of the order beyond the
  connection, followed by leaving the session.
\<close>

definition follows_session_order :: "event list \<Rightarrow> event list \<Rightarrow> bool" where
  "follows_session_order order t =
     (t = [] \<or> t = take 1 order
      \<or> (last t = Quit \<and> prefix (butlast t) order \<and> 2 \<le> length (butlast t)))"

section \<open>A concrete installation\<close>

text \<open>
  A configuration, a well-behaved environment and a starting world, used to run the
  model on concrete requests.  The upload limit is three bytes to keep payloads short.
\<close>

definition example_config :: config where
  "example_config =
     \<lparr>BEARER_TOKEN = ''s3cret'', KINDLE_EMAIL = ''reader@kindle.example'',
      SMTP_HOST = ''smtp.example.org'', SMTP_PORT = 587, SMTP_USER = ''mailer'',
      SMTP_PASS = ''pw'', SMTP_FROM = ''mailer@example.org'', SMTP_TLS = True,
      EBOOK_CONVERT_BIN = ''ebook-convert'', MAX_PDF_BYTES = 3\<rparr>"

definition example_td :: path where
  "example_td = [''tmp'', ''tmpw0rk'']"

definition example_env :: env where
  "example_env =
     \<lparr>mkdtemp = (\<lambda>_. Inr example_td),
      write_error = (\<lambda>_. None),
      subprocess_run =
        (\<lambda>cmd f. (Completed 0 (Some []) (Some []),
                   f(example_td @ [''output.epub''] \<mapsto> File [0x50, 0x4B]))),
      smtp_server = (\<lambda>_ _. SMTPOk),
      dir_st_size = 4096\<rparr>"

definition example_world :: world where
  "example_world = \<lparr>fs = [[''dev'', ''null''] \<mapsto> File []], events = []\<rparr>"

definition example_upload :: upload where
  "example_upload =
     \<lparr>upload_filename = Some ''book.pdf'', content_type = Some ''application/pdf'',
      upload_data = [0x25, 0x50]\<rparr>"

lemmas model_defs =
  require_bearer_def startswith_def split1_def strip_def isspace_def bearer_token_of_def
  exists_path_def st_size_def read_bytes_def write_bytes_def path_str_def path_name_def
  last_chars_def or_empty_def rmtree_def with_TemporaryDirectory_def pdf_to_epub_def smtp_do_def
  smtp_session_body_def smtp_session_def attachment_message_def
  send_email_with_attachment_def fmt_opt_def convert_body_def
  convert_pdf_to_epub_endpoint_def test_email_fallback_msg_def test_email_def
  credential_missing_or_malformed_def credential_wrong_def credential_accepted_def
  accepted_type_def new_events_def converter_start_def is_workspace_event_def
  spec_session_order_def follows_session_order_def

lemmas example_defs =
  example_config_def example_td_def example_env_def example_world_def example_upload_def

section \<open>Properties of the authorizer\<close>

lemma split1_Bearer:
  assumes "startswith a ''Bearer ''"
  shows "split1 CHR '' '' a = [''Bearer'', drop 7 a]"
proof -
  have "length ''Bearer '' = 7" by simp
  with assms have "take 7 a = ''Bearer ''" unfolding startswith_def by metis
  then have a: "a = ''Bearer '' @ drop 7 a" by (metis append_take_drop_id)
  have "split1 CHR '' '' (''Bearer '' @ drop 7 a) = [''Bearer'', drop 7 a]"
    by (simp add: split1_def)
  with a show ?thesis by simp
qed

lemma require_bearer_wellformed:
  assumes "startswith a ''Bearer ''"
  shows "require_bearer cfg (Some a) =
           (if bearer_token_of a = [] then Inl (Http (HTTPException 401 ''Missing bearer token''))
            else if bearer_token_of a \<noteq> BEARER_TOKEN cfg
              then Inl (Http (HTTPException 403 ''Invalid bearer token''))
            else Inr ())"
proof -
  from assms have "a \<noteq> []" by (auto simp: startswith_def)
  then show ?thesis
    using assms by (simp add: require_bearer_def split1_Bearer bearer_token_of_def Let_def)
qed

lemma require_bearer_malformed:
  assumes "\<not> startswith a ''Bearer ''"
  shows "require_bearer cfg (Some a) = Inl (Http (HTTPException 401 ''Missing bearer token''))"
  using assms by (simp add: require_bearer_def)

lemma require_bearer_eq:
  "require_bearer cfg h =
     (if credential_missing_or_malformed h
        then Inl (Http (HTTPException 401 ''Missing bearer token''))
      else if credential_wrong cfg h
        then Inl (Http (HTTPException 403 ''Invalid bearer token''))
      else Inr ())"
proof (cases h)
  case None
  then show ?thesis
    by (simp add: require_bearer_def credential_missing_or_malformed_def)
next
  case (Some a)
  show ?thesis
  proof (cases "startswith a ''Bearer ''")
    case True
    with Some show ?thesis
      by (simp add: require_bearer_wellformed credential_missing_or_malformed_def
          credential_wrong_def)
  next
    case False
    with Some show ?thesis
      by (simp add: require_bearer_malformed credential_missing_or_malformed_def)
  qed
qed

lemma credential_trichotomy:
  "credential_accepted cfg h \<longleftrightarrow>
     \<not> credential_missing_or_malformed h \<and> \<not> credential_wrong cfg h"
  by (auto simp: credential_accepted_def credential_missing_or_malformed_def
      credential_wrong_def split: option.splits)

lemma credential_exclusive:
  "\<not> (credential_missing_or_malformed h \<and> credential_wrong cfg h)"
  by (auto simp: credential_missing_or_malformed_def credential_wrong_def
      split: option.splits)


text \<open>
  Claim C2.  \<open>require_bearer\<close> raises 401 exactly when the header is absent, does not
  begin with \<open>"Bearer "\<close>, or carries an empty token after trimming; it raises 403
  exactly when a well-formed token differs from the configured secret; it returns
  exactly when the well-formed token equals the secret.  One of the three always
  happens, and the function has no state to change: its result is a value computed from
  the configuration and the header alone.
\<close>

theorem require_bearer_outcomes:
  "(require_bearer cfg h = Inl (Http (HTTPException 401 ''Missing bearer token''))
      \<longleftrightarrow> credential_missing_or_malformed h)
   \<and> (require_bearer cfg h = Inl (Http (HTTPException 403 ''Invalid bearer token''))
      \<longleftrightarrow> credential_wrong cfg h)
   \<and> (require_bearer cfg h = Inr () \<longleftrightarrow> credential_accepted cfg h)
   \<and> (credential_missing_or_malformed h \<or> credential_wrong cfg h
      \<or> credential_accepted cfg h)"
  using credential_exclusive [of h cfg]
  by (auto simp: require_bearer_eq credential_trichotomy)

theorem require_bearer_outcomes_witness:
  "credential_missing_or_malformed None
   \<and> require_bearer example_config None
       = Inl (Http (HTTPException 401 ''Missing bearer token''))
   \<and> credential_missing_or_malformed (Some ''Bearer   '')
   \<and> require_bearer example_config (Some ''Bearer   '')
       = Inl (Http (HTTPException 401 ''Missing bearer token''))
   \<and> credential_missing_or_malformed (Some ''bearer s3cret'')
   \<and> require_bearer example_config (Some ''bearer s3cret'')
       = Inl (Http (HTTPException 401 ''Missing bearer token''))
   \<and> credential_wrong example_config (Some ''Bearer s3cre'')
   \<and> require_bearer example_config (Some ''Bearer s3cre'')
       = Inl (Http (HTTPException 403 ''Invalid bearer token''))
   \<and> credential_accepted example_config (Some ''Bearer  s3cret '')
   \<and> require_bearer example_config (Some ''Bearer  s3cret '') = Inr ()"
proof -
  have a: "credential_missing_or_malformed None"
    by code_simp
  have b: "credential_missing_or_malformed (Some ''Bearer   '')"
    by code_simp
  have c: "credential_missing_or_malformed (Some ''bearer s3cret'')"
    by code_simp
  have d: "credential_wrong example_config (Some ''Bearer s3cre'')"
    by code_simp
  have e: "credential_accepted example_config (Some ''Bearer  s3cret '')"
    by code_simp
  note t = require_bearer_outcomes [THEN conjunct1, THEN iffD2]
  note u = require_bearer_outcomes [THEN conjunct2, THEN conjunct1, THEN iffD2]
  note v = require_bearer_outcomes [THEN conjunct2, THEN conjunct2, THEN conjunct1, THEN iffD2]
  show ?thesis
    by (intro conjI a b c d e t [OF a] t [OF b] t [OF c] u [OF d] v [OF e])
qed

section \<open>Properties of the mail session\<close>

lemma new_events_append: "events w' = events w @ xs \<Longrightarrow> new_events w w' = xs"
  by (simp add: new_events_def)

lemma smtp_do_world:
  "smtp_do en a w = (r, w') \<Longrightarrow> fs w' = fs w \<and> events w' = events w @ [a]"
  by (auto simp: smtp_do_def)

text \<open>The commands of the session body, in the order of the specification.\<close>

lemma smtp_session_body_trace:
  assumes "smtp_session_body cfg en msg w = (r, w')"
  shows "fs w' = fs w
    \<and> (\<exists>done. events w' = events w @ done \<and> done \<noteq> []
         \<and> prefix done (tl (spec_session_order cfg msg))
         \<and> (r = SMTPOk \<longrightarrow> done = tl (spec_session_order cfg msg)))"
  using assms
  by (auto simp: smtp_session_body_def smtp_do_def spec_session_order_def
      split: if_splits prod.splits smtp_reply.splits)

lemma smtp_session_trace:
  assumes "smtp_session cfg en msg w = (r, w')"
  shows "fs w' = fs w \<and> events w' = events w @ new_events w w'
    \<and> new_events w w' \<noteq> []
    \<and> follows_session_order (spec_session_order cfg msg) (new_events w w')
    \<and> (r = SMTPOk \<longrightarrow> new_events w w' = spec_session_order cfg msg @ [Quit])"
proof (cases "smtp_do en (Connect (SMTP_HOST cfg) (SMTP_PORT cfg) 30) w")
  case (Pair c w1)
  then have w1: "fs w1 = fs w"
    "events w1 = events w @ [Connect (SMTP_HOST cfg) (SMTP_PORT cfg) 30]"
    by (auto dest: smtp_do_world)
  have hd_order: "spec_session_order cfg msg
      = Connect (SMTP_HOST cfg) (SMTP_PORT cfg) 30 # tl (spec_session_order cfg msg)"
    by (simp add: spec_session_order_def)
  show ?thesis
  proof (cases "c = SMTPOk")
    case False
    with assms Pair have "r = c" "w' = w1"
      by (auto simp: smtp_session_def split: smtp_reply.splits)
    with w1 False hd_order show ?thesis
      by (auto simp: new_events_def follows_session_order_def spec_session_order_def)
  next
    case True
    obtain b w2 where body: "smtp_session_body cfg en msg w1 = (b, w2)"
      by (cases "smtp_session_body cfg en msg w1")
    obtain q w3 where quit: "smtp_do en Quit w2 = (q, w3)"
      by (cases "smtp_do en Quit w2")
    from smtp_session_body_trace [OF body] obtain "done" where
      d: "fs w2 = fs w1" "events w2 = events w1 @ done" "done \<noteq> []"
         "prefix done (tl (spec_session_order cfg msg))"
         "b = SMTPOk \<longrightarrow> done = tl (spec_session_order cfg msg)"
      by blast
    from quit have w3: "fs w3 = fs w2" "events w3 = events w2 @ [Quit]"
      by (auto dest: smtp_do_world)
    from assms Pair True body quit have res: "w' = w3" "r = SMTPOk \<longrightarrow> b = SMTPOk"
      by (auto simp: smtp_session_def split: smtp_reply.splits)
    have ev: "events w' =
        events w @ (Connect (SMTP_HOST cfg) (SMTP_PORT cfg) 30 # done) @ [Quit]"
      using res w1 d w3 by simp
    then have ne: "new_events w w' = (Connect (SMTP_HOST cfg) (SMTP_PORT cfg) 30 # done) @ [Quit]"
      by (rule new_events_append)
    have pre: "prefix (Connect (SMTP_HOST cfg) (SMTP_PORT cfg) 30 # done)
                 (spec_session_order cfg msg)"
      using d(4) by (subst hd_order) simp
    have len: "2 \<le> length (Connect (SMTP_HOST cfg) (SMTP_PORT cfg) 30 # done)"
      using d(3) by (cases "done") auto
    have "follows_session_order (spec_session_order cfg msg) (new_events w w')"
      unfolding follows_session_order_def ne using pre len by simp
    moreover have "r = SMTPOk \<longrightarrow> new_events w w' = spec_session_order cfg msg @ [Quit]"
      using res(2) d(5) ne hd_order by auto
    ultimately show ?thesis
      using res w3 d w1 ev ne by simp
  qed
qed

lemma follows_session_order_not_workspace:
  assumes "follows_session_order (spec_session_order cfg msg) t"
  shows "\<forall>e \<in> set t. \<not> is_workspace_event e"
proof -
  have order: "\<forall>e \<in> set (spec_session_order cfg msg). \<not> is_workspace_event e"
    by (auto simp: spec_session_order_def is_workspace_event_def split: if_splits)
  from assms consider "t = []" | "t = take 1 (spec_session_order cfg msg)"
    | "last t = Quit" "prefix (butlast t) (spec_session_order cfg msg)" "2 \<le> length (butlast t)"
    by (auto simp: follows_session_order_def)
  then show ?thesis
  proof cases
    case 1
    then show ?thesis by simp
  next
    case 2
    then show ?thesis using order by (auto dest: in_set_takeD)
  next
    case 3
    from 3(3) have "t \<noteq> []" by auto
    then have t: "t = butlast t @ [Quit]" using 3(1) by (metis append_butlast_last_id)
    from 3(2) have "set (butlast t) \<subseteq> set (spec_session_order cfg msg)"
      by (rule set_mono_prefix)
    with order have "\<forall>e \<in> set (butlast t). \<not> is_workspace_event e" by blast
    moreover have "\<not> is_workspace_event Quit" by (simp add: is_workspace_event_def)
    ultimately show ?thesis by (subst t) auto
  qed
qed

lemma send_email_cases:
  "send_email_with_attachment cfg en subject body to_addr p w =
     (if SMTP_HOST cfg = [] then (Inl (RuntimeError ''SMTP_HOST is not set''), w)
      else case fs w p of
        None \<Rightarrow> (Inl (RuntimeError ''Attachment not found''), w)
      | Some Dir \<Rightarrow> (Inl (OSError ''Is a directory''), w)
      | Some (File data) \<Rightarrow>
          (case smtp_session cfg en
                  (attachment_message cfg subject body to_addr p data) w of
             (SMTPOk, w') \<Rightarrow> (Inr (), w')
           | (SMTPAuthenticationError m, w') \<Rightarrow>
               (Inl (RuntimeError
                  ''Email failed: SMTP authentication failed (check SMTP_USER/SMTP_PASS)''),
                w')
           | (SMTPFailure m, w') \<Rightarrow> (Inl (RuntimeError (''Email failed: '' @ m)), w')))"
  by (simp add: send_email_with_attachment_def exists_path_def read_bytes_def Let_def
      split: option.splits node.splits)

lemma send_email_world:
  assumes "send_email_with_attachment cfg en subject body to_addr p w = (r, w')"
  shows "fs w' = fs w \<and> events w' = events w @ new_events w w'
    \<and> (\<forall>e \<in> set (new_events w w'). \<not> is_workspace_event e)"
proof (cases "SMTP_HOST cfg \<noteq> [] \<and> (\<exists>d. fs w p = Some (File d))")
  case False
  with assms have "w' = w"
    by (auto simp: send_email_cases split: if_splits option.splits node.splits)
  then show ?thesis by (simp add: new_events_def)
next
  case True
  then obtain d where d: "fs w p = Some (File d)" by blast
  obtain s w2 where sess:
    "smtp_session cfg en (attachment_message cfg subject body to_addr p d) w = (s, w2)"
    by (cases "smtp_session cfg en (attachment_message cfg subject body to_addr p d) w")
  with assms True d have "w' = w2"
    by (auto simp: send_email_cases split: smtp_reply.splits)
  with smtp_session_trace [OF sess] follows_session_order_not_workspace show ?thesis
    by blast
qed

text \<open>
  Claim C8.  In every call of \<open>send_email_with_attachment\<close> the steps come in one
  order.  The mail host check is first: without a host the call fails with
  "SMTP_HOST is not set" and the world is untouched.  The attachment check is second:
  with a host but without the file the call fails with "Attachment not found" and the
  world is untouched.  So any network activity implies that both checks passed.  The
  commands that are then issued are an initial part of the specification's order
  (connection with the 30 second timeout, TLS when configured, login when a user name
  is configured, transmission), and a successful call has issued exactly that order and
  left the session.
\<close>

theorem delivery_order:
  assumes "send_email_with_attachment cfg en subject body to_addr p w = (r, w')"
  shows "(SMTP_HOST cfg = [] \<longrightarrow>
            r = Inl (RuntimeError ''SMTP_HOST is not set'') \<and> w' = w)
    \<and> (SMTP_HOST cfg \<noteq> [] \<and> \<not> exists_path (fs w) p \<longrightarrow>
            r = Inl (RuntimeError ''Attachment not found'') \<and> w' = w)
    \<and> (events w' \<noteq> events w \<longrightarrow> SMTP_HOST cfg \<noteq> [] \<and> exists_path (fs w) p)
    \<and> (\<forall>data. read_bytes (fs w) p = Inr data \<longrightarrow>
          events w' = events w @ new_events w w'
          \<and> follows_session_order
               (spec_session_order cfg (attachment_message cfg subject body to_addr p data))
               (new_events w w')
          \<and> (r = Inr () \<longrightarrow>
               new_events w w' =
                 spec_session_order cfg (attachment_message cfg subject body to_addr p data)
                 @ [Quit]))
    \<and> (r = Inr () \<longrightarrow> (\<exists>data. read_bytes (fs w) p = Inr data))"
proof -
  have c1: "SMTP_HOST cfg = [] \<longrightarrow>
      r = Inl (RuntimeError ''SMTP_HOST is not set'') \<and> w' = w"
    using assms by (auto simp: send_email_cases)
  have c2: "SMTP_HOST cfg \<noteq> [] \<and> \<not> exists_path (fs w) p \<longrightarrow>
      r = Inl (RuntimeError ''Attachment not found'') \<and> w' = w"
    using assms by (auto simp: send_email_cases exists_path_def)
  have c3: "events w' \<noteq> events w \<longrightarrow> SMTP_HOST cfg \<noteq> [] \<and> exists_path (fs w) p"
    using assms
    by (auto simp: send_email_cases exists_path_def split: if_splits option.splits)
  have c5: "r = Inr () \<longrightarrow> (\<exists>data. read_bytes (fs w) p = Inr data)"
    using assms
    by (auto simp: send_email_cases read_bytes_def
        split: if_splits option.splits node.splits)
  have c4: "events w' = events w @ new_events w w'
      \<and> follows_session_order
           (spec_session_order cfg (attachment_message cfg subject body to_addr p data))
           (new_events w w')
      \<and> (r = Inr () \<longrightarrow>
           new_events w w' =
             spec_session_order cfg (attachment_message cfg subject body to_addr p data)
             @ [Quit])"
    if rd: "read_bytes (fs w) p = Inr data" for data
  proof -
    from rd have isfile: "fs w p = Some (File data)"
      by (auto simp: read_bytes_def split: option.splits node.splits)
    let ?msg = "attachment_message cfg subject body to_addr p data"
    show ?thesis
    proof (cases "SMTP_HOST cfg = []")
      case True
      with assms have "w' = w" "r \<noteq> Inr ()" by (auto simp: send_email_cases)
      then show ?thesis by (simp add: new_events_def follows_session_order_def)
    next
      case False
      obtain s w2 where sess: "smtp_session cfg en ?msg w = (s, w2)"
        by (cases "smtp_session cfg en ?msg w")
      with assms False isfile have "w' = w2" "r = Inr () \<longrightarrow> s = SMTPOk"
        by (auto simp: send_email_cases split: smtp_reply.splits)
      with smtp_session_trace [OF sess] show ?thesis by blast
    qed
  qed
  from c1 c2 c3 c4 c5 show ?thesis by blast
qed

theorem delivery_order_witness:
  "read_bytes (fs example_world) [''dev'', ''null''] = Inr []
   \<and> fst (send_email_with_attachment example_config example_env ''Hello'' ''Text''
          ''reader@kindle.example'' [''dev'', ''null''] example_world) = Inr ()
   \<and> new_events example_world
        (snd (send_email_with_attachment example_config example_env ''Hello'' ''Text''
          ''reader@kindle.example'' [''dev'', ''null''] example_world))
       = [Connect ''smtp.example.org'' 587 30, StartTLS, Login ''mailer'' ''pw'',
          SendMessage (attachment_message example_config ''Hello'' ''Text''
            ''reader@kindle.example'' [''dev'', ''null''] []),
          Quit]
   \<and> SMTP_HOST (example_config\<lparr>SMTP_HOST := []\<rparr>) = []
   \<and> send_email_with_attachment (example_config\<lparr>SMTP_HOST := []\<rparr>) example_env
        ''Hello'' ''Text'' ''reader@kindle.example'' [''dev'', ''null''] example_world
       = (Inl (RuntimeError ''SMTP_HOST is not set''), example_world)"
proof -
  let ?run = "send_email_with_attachment example_config example_env ''Hello'' ''Text''
          ''reader@kindle.example'' [''dev'', ''null''] example_world"
  let ?nohost = "send_email_with_attachment (example_config\<lparr>SMTP_HOST := []\<rparr>)
          example_env ''Hello'' ''Text'' ''reader@kindle.example'' [''dev'', ''null'']
          example_world"
  have rd: "read_bytes (fs example_world) [''dev'', ''null''] = Inr []"
    by code_simp
  have ok: "fst ?run = Inr ()"
    by code_simp
  have order: "spec_session_order example_config
        (attachment_message example_config ''Hello'' ''Text''
            ''reader@kindle.example'' [''dev'', ''null''] []) @ [Quit]
      = [Connect ''smtp.example.org'' 587 30, StartTLS, Login ''mailer'' ''pw'',
          SendMessage (attachment_message example_config ''Hello'' ''Text''
            ''reader@kindle.example'' [''dev'', ''null''] []),
          Quit]"
    by (simp add: spec_session_order_def example_config_def)
  have host: "SMTP_HOST (example_config\<lparr>SMTP_HOST := []\<rparr>) = []"
    by simp
  note t = delivery_order [OF surjective_pairing, of example_config example_env "''Hello''"
      "''Text''" "''reader@kindle.example''" "[''dev'', ''null'']" example_world]
  from t rd ok have new: "new_events example_world (snd ?run)
      = spec_session_order example_config
          (attachment_message example_config ''Hello'' ''Text''
            ''reader@kindle.example'' [''dev'', ''null''] []) @ [Quit]"
    by blast
  note t0 = delivery_order [OF surjective_pairing, of "example_config\<lparr>SMTP_HOST := []\<rparr>"
      example_env "''Hello''" "''Text''" "''reader@kindle.example''" "[''dev'', ''null'']"
      example_world]
  from t0 host have "fst ?nohost = Inl (RuntimeError ''SMTP_HOST is not set'')
      \<and> snd ?nohost = example_world"
    by blast
  then have r0: "?nohost = (Inl (RuntimeError ''SMTP_HOST is not set''), example_world)"
    by (metis prod.collapse)
  show ?thesis
    using rd ok new [unfolded order] host r0 by (intro conjI)
qed

section \<open>Properties of the converter\<close>

lemma pdf_to_epub_world:
  assumes "pdf_to_epub cfg en pdf_path epub_path w = (r, w')"
  shows "events w' = events w
            @ [Run [EBOOK_CONVERT_BIN cfg, path_str pdf_path, path_str epub_path]]
    \<and> fs w' = snd (subprocess_run en
                    [EBOOK_CONVERT_BIN cfg, path_str pdf_path, path_str epub_path] (fs w))"
  using assms
  by (auto simp: pdf_to_epub_def Let_def split: prod.splits proc_outcome.splits if_splits)

lemma pdf_to_epub_completed:
  assumes "subprocess_run en [EBOOK_CONVERT_BIN cfg, path_str pdf_path, path_str epub_path]
             (fs w) = (Completed rc out err, f')"
  shows "fst (pdf_to_epub cfg en pdf_path epub_path w) =
     (if rc \<noteq> 0 then
        Inl (RuntimeError (''Conversion failed: '' @ last_chars 2000 (or_empty err)))
      else if \<not> exists_path f' epub_path \<or> st_size en f' epub_path = 0 then
        Inl (RuntimeError ''Conversion failed: output EPUB was not created'')
      else Inr ())"
  using assms by (simp add: pdf_to_epub_def Let_def)

text \<open>
  Claim C4.  \<open>pdf_to_epub\<close> returns normally only if, in the filesystem the child
  process left, the output path exists and has a non-zero size (and then the process
  ended with status 0).  When the process ends with status 0 and the output path does
  not exist or has size zero, the call fails with "output EPUB was not created".
\<close>

theorem pdf_to_epub_success_nonempty:
  "(pdf_to_epub cfg en pdf_path epub_path w = (Inr (), w') \<longrightarrow>
      exists_path (fs w') epub_path \<and> st_size en (fs w') epub_path \<noteq> 0
      \<and> (\<exists>out err. subprocess_run en
             [EBOOK_CONVERT_BIN cfg, path_str pdf_path, path_str epub_path] (fs w)
           = (Completed 0 out err, fs w')))
   \<and> (subprocess_run en [EBOOK_CONVERT_BIN cfg, path_str pdf_path, path_str epub_path]
          (fs w) = (Completed 0 out err, f')
        \<and> (\<not> exists_path f' epub_path \<or> st_size en f' epub_path = 0) \<longrightarrow>
      fst (pdf_to_epub cfg en pdf_path epub_path w)
        = Inl (RuntimeError ''Conversion failed: output EPUB was not created''))"
proof -
  have a: "exists_path (fs w') epub_path \<and> st_size en (fs w') epub_path \<noteq> 0
      \<and> (\<exists>out err. subprocess_run en
             [EBOOK_CONVERT_BIN cfg, path_str pdf_path, path_str epub_path] (fs w)
           = (Completed 0 out err, fs w'))"
    if "pdf_to_epub cfg en pdf_path epub_path w = (Inr (), w')"
    using that
    by (auto simp: pdf_to_epub_def Let_def
        split: prod.splits proc_outcome.splits if_splits)
  have b: "fst (pdf_to_epub cfg en pdf_path epub_path w)
        = Inl (RuntimeError ''Conversion failed: output EPUB was not created'')"
    if "subprocess_run en [EBOOK_CONVERT_BIN cfg, path_str pdf_path, path_str epub_path]
          (fs w) = (Completed 0 out err, f')"
      and "\<not> exists_path f' epub_path \<or> st_size en f' epub_path = 0"
    using that by (simp add: pdf_to_epub_completed)
  from a b show ?thesis by blast
qed

theorem pdf_to_epub_success_nonempty_witness:
  "fst (pdf_to_epub example_config example_env
          (example_td @ [''input.pdf'']) (example_td @ [''output.epub''])
          (converter_start [0x25, 0x50] example_td example_world)) = Inr ()
   \<and> exists_path
        (fs (snd (pdf_to_epub example_config example_env
          (example_td @ [''input.pdf'']) (example_td @ [''output.epub''])
          (converter_start [0x25, 0x50] example_td example_world))))
        (example_td @ [''output.epub''])
   \<and> st_size example_env
        (fs (snd (pdf_to_epub example_config example_env
          (example_td @ [''input.pdf'']) (example_td @ [''output.epub''])
          (converter_start [0x25, 0x50] example_td example_world))))
        (example_td @ [''output.epub'']) \<noteq> 0
   \<and> subprocess_run (example_env\<lparr>subprocess_run := \<lambda>cmd f. (Completed 0 None None, f)\<rparr>)
        [EBOOK_CONVERT_BIN example_config, path_str (example_td @ [''input.pdf'']),
         path_str (example_td @ [''output.epub''])]
        (fs (converter_start [0x25, 0x50] example_td example_world))
       = (Completed 0 None None, fs (converter_start [0x25, 0x50] example_td example_world))
   \<and> \<not> exists_path (fs (converter_start [0x25, 0x50] example_td example_world))
          (example_td @ [''output.epub''])
   \<and> fst (pdf_to_epub example_config
          (example_env\<lparr>subprocess_run := \<lambda>cmd f. (Completed 0 None None, f)\<rparr>)
          (example_td @ [''input.pdf'']) (example_td @ [''output.epub''])
          (converter_start [0x25, 0x50] example_td example_world))
       = Inl (RuntimeError ''Conversion failed: output EPUB was not created'')"
proof -
  let ?w = "converter_start [0x25, 0x50] example_td example_world"
  let ?inp = "example_td @ [''input.pdf'']"
  let ?outp = "example_td @ [''output.epub'']"
  let ?idle = "example_env\<lparr>subprocess_run := \<lambda>cmd f. (Completed 0 None None, f)\<rparr>"
  have ok: "fst (pdf_to_epub example_config example_env ?inp ?outp ?w) = Inr ()"
    by code_simp
  then have eq: "pdf_to_epub example_config example_env ?inp ?outp ?w
      = (Inr (), snd (pdf_to_epub example_config example_env ?inp ?outp ?w))"
    by (metis prod.collapse)
  note s = pdf_to_epub_success_nonempty [THEN conjunct1, rule_format, OF eq]
  have run: "subprocess_run ?idle
        [EBOOK_CONVERT_BIN example_config, path_str ?inp, path_str ?outp] (fs ?w)
       = (Completed 0 None None, fs ?w)"
    by simp
  have missing: "\<not> exists_path (fs ?w) ?outp"
    by code_simp
  note e = pdf_to_epub_success_nonempty [THEN conjunct2, rule_format,
      OF conjI [OF run disjI1 [OF missing]]]
  show ?thesis
    using ok s run missing e by (intro conjI) blast+
qed

section \<open>Properties of the orchestrator\<close>

lemma accepted_type_iff:
  "accepted_type file \<longleftrightarrow>
     content_type file \<in> {Some ''application/pdf'', Some ''application/octet-stream''}"
  by (auto simp: accepted_type_def)

text \<open>The handler up to the workspace: the three early exits.\<close>

lemma convert_endpoint_early:
  "convert_pdf_to_epub_endpoint cfg en h file w =
     (if credential_missing_or_malformed h
        then (Raised (Http (HTTPException 401 ''Missing bearer token'')), w)
      else if credential_wrong cfg h
        then (Raised (Http (HTTPException 403 ''Invalid bearer token'')), w)
      else if \<not> accepted_type file
        then (Raised (Http (HTTPException 400
                (''Expected PDF, got '' @ fmt_opt (content_type file)))), w)
      else if int (length (upload_data file)) > MAX_PDF_BYTES cfg
        then (Raised (Http (HTTPException 413 ''PDF too large'')), w)
      else (case with_TemporaryDirectory en (convert_body cfg en (upload_data file)) w of
              (Some r, w') \<Rightarrow> (Raised r, w')
            | (None, w') \<Rightarrow> (JSONResponse True (KINDLE_EMAIL cfg), w')))"
  unfolding convert_pdf_to_epub_endpoint_def require_bearer_eq accepted_type_iff Let_def
  by simp

text \<open>The body of the workspace block once the upload is written.\<close>

lemma convert_body_written:
  assumes "write_error en (td @ [''input.pdf'']) = None"
  shows "convert_body cfg en raw td
           (w\<lparr>fs := (fs w)(td \<mapsto> Dir), events := events w @ [Mkdtemp td]\<rparr>) =
     (case pdf_to_epub cfg en (td @ [''input.pdf'']) (td @ [''output.epub''])
             (converter_start raw td w) of
        (Inl e, w2) \<Rightarrow> (Some (Http (HTTPException 500 (str_exn e))), w2)
      | (Inr _, w2) \<Rightarrow>
          (case send_email_with_attachment cfg en ''Your converted EPUB''
                  ''Attached is the EPUB converted from your PDF.''
                  (KINDLE_EMAIL cfg) (td @ [''output.epub'']) w2 of
             (Inl e, w3) \<Rightarrow> (Some (Http (HTTPException 502 (str_exn e))), w3)
           | (Inr _, w3) \<Rightarrow> (None, w3)))"
proof -
  have "snd (write_bytes en (td @ [''input.pdf'']) raw
               (w\<lparr>fs := (fs w)(td \<mapsto> Dir), events := events w @ [Mkdtemp td]\<rparr>))
          = converter_start raw td w"
    using assms by (cases w) (simp add: write_bytes_def converter_start_def)
  moreover have "fst (write_bytes en (td @ [''input.pdf'']) raw
               (w\<lparr>fs := (fs w)(td \<mapsto> Dir), events := events w @ [Mkdtemp td]\<rparr>))
          = Inr ()"
    using assms by (simp add: write_bytes_def)
  ultimately have "write_bytes en (td @ [''input.pdf'']) raw
               (w\<lparr>fs := (fs w)(td \<mapsto> Dir), events := events w @ [Mkdtemp td]\<rparr>)
          = (Inr (), converter_start raw td w)"
    by (metis prod.collapse)
  then show ?thesis
    by (simp add: convert_body_def Let_def)
qed

text \<open>The handler when the request passed the checks and the workspace is ready.\<close>

lemma convert_endpoint_workspace:
  assumes "credential_accepted cfg h" and "accepted_type file"
    and "\<not> int (length (upload_data file)) > MAX_PDF_BYTES cfg"
    and "mkdtemp en (fs w) = Inr td"
    and "write_error en (td @ [''input.pdf'']) = None"
  shows "convert_pdf_to_epub_endpoint cfg en h file w =
     (case pdf_to_epub cfg en (td @ [''input.pdf'']) (td @ [''output.epub''])
             (converter_start (upload_data file) td w) of
        (Inl e, w2) \<Rightarrow> (Raised (Http (HTTPException 500 (str_exn e))), rmtree td w2)
      | (Inr _, w2) \<Rightarrow>
          (case send_email_with_attachment cfg en ''Your converted EPUB''
                  ''Attached is the EPUB converted from your PDF.''
                  (KINDLE_EMAIL cfg) (td @ [''output.epub'']) w2 of
             (Inl e, w3) \<Rightarrow> (Raised (Http (HTTPException 502 (str_exn e))), rmtree td w3)
           | (Inr _, w3) \<Rightarrow> (JSONResponse True (KINDLE_EMAIL cfg), rmtree td w3)))"
proof -
  from assms(1) have auth: "\<not> credential_missing_or_malformed h" "\<not> credential_wrong cfg h"
    by (simp_all add: credential_trichotomy)
  show ?thesis
    using auth assms(2-4)
    by (simp add: convert_endpoint_early with_TemporaryDirectory_def
        convert_body_written [OF assms(5)] split: prod.splits sum.splits)
qed

text \<open>
  Claim C1.  The response of \<open>POST /convert\<close> by outcome: a missing or malformed
  credential gives 401, a wrong credential 403, an unsupported content type 400, an
  oversized payload 413; with the workspace ready, a failure of the conversion gives 500
  with the text of the error as detail, a failure of the delivery gives 502 with the text
  of the error as detail, and success gives 200 with the body
  \<open>{"ok": true, "sent_to": KINDLE_EMAIL}\<close>.
\<close>

theorem convert_endpoint_responses:
  "(credential_missing_or_malformed h \<longrightarrow>
      fst (convert_pdf_to_epub_endpoint cfg en h file w)
        = Raised (Http (HTTPException 401 ''Missing bearer token'')))
   \<and> (credential_wrong cfg h \<longrightarrow>
      fst (convert_pdf_to_epub_endpoint cfg en h file w)
        = Raised (Http (HTTPException 403 ''Invalid bearer token'')))
   \<and> (credential_accepted cfg h \<and> \<not> accepted_type file \<longrightarrow>
      fst (convert_pdf_to_epub_endpoint cfg en h file w)
        = Raised (Http (HTTPException 400
            (''Expected PDF, got '' @ fmt_opt (content_type file)))))
   \<and> (credential_accepted cfg h \<and> accepted_type file
        \<and> int (length (upload_data file)) > MAX_PDF_BYTES cfg \<longrightarrow>
      fst (convert_pdf_to_epub_endpoint cfg en h file w)
        = Raised (Http (HTTPException 413 ''PDF too large'')))
   \<and> (credential_accepted cfg h \<and> accepted_type file
        \<and> \<not> int (length (upload_data file)) > MAX_PDF_BYTES cfg
        \<and> mkdtemp en (fs w) = Inr td \<and> write_error en (td @ [''input.pdf'']) = None \<longrightarrow>
      (\<forall>e w2. pdf_to_epub cfg en (td @ [''input.pdf'']) (td @ [''output.epub''])
                 (converter_start (upload_data file) td w) = (Inl e, w2) \<longrightarrow>
         fst (convert_pdf_to_epub_endpoint cfg en h file w)
           = Raised (Http (HTTPException 500 (str_exn e))))
      \<and> (\<forall>w2. pdf_to_epub cfg en (td @ [''input.pdf'']) (td @ [''output.epub''])
                 (converter_start (upload_data file) td w) = (Inr (), w2) \<longrightarrow>
           (\<forall>e w3. send_email_with_attachment cfg en ''Your converted EPUB''
                      ''Attached is the EPUB converted from your PDF.''
                      (KINDLE_EMAIL cfg) (td @ [''output.epub'']) w2 = (Inl e, w3) \<longrightarrow>
              fst (convert_pdf_to_epub_endpoint cfg en h file w)
                = Raised (Http (HTTPException 502 (str_exn e))))
           \<and> (\<forall>w3. send_email_with_attachment cfg en ''Your converted EPUB''
                      ''Attached is the EPUB converted from your PDF.''
                      (KINDLE_EMAIL cfg) (td @ [''output.epub'']) w2 = (Inr (), w3) \<longrightarrow>
              fst (convert_pdf_to_epub_endpoint cfg en h file w)
                = JSONResponse True (KINDLE_EMAIL cfg)
              \<and> status_code (fst (convert_pdf_to_epub_endpoint cfg en h file w)) = 200)))"
proof -
  have c1: "credential_missing_or_malformed h \<longrightarrow>
      fst (convert_pdf_to_epub_endpoint cfg en h file w)
        = Raised (Http (HTTPException 401 ''Missing bearer token''))"
    by (simp add: convert_endpoint_early)
  have c2: "credential_wrong cfg h \<longrightarrow>
      fst (convert_pdf_to_epub_endpoint cfg en h file w)
        = Raised (Http (HTTPException 403 ''Invalid bearer token''))"
    using credential_exclusive [of h cfg] by (auto simp: convert_endpoint_early)
  have c3: "credential_accepted cfg h \<and> \<not> accepted_type file \<longrightarrow>
      fst (convert_pdf_to_epub_endpoint cfg en h file w)
        = Raised (Http (HTTPException 400
            (''Expected PDF, got '' @ fmt_opt (content_type file))))"
    by (simp add: convert_endpoint_early credential_trichotomy)
  have c4: "credential_accepted cfg h \<and> accepted_type file
        \<and> int (length (upload_data file)) > MAX_PDF_BYTES cfg \<longrightarrow>
      fst (convert_pdf_to_epub_endpoint cfg en h file w)
        = Raised (Http (HTTPException 413 ''PDF too large''))"
    by (simp add: convert_endpoint_early credential_trichotomy)
  have c5: "(\<forall>e w2. pdf_to_epub cfg en (td @ [''input.pdf'']) (td @ [''output.epub''])
                 (converter_start (upload_data file) td w) = (Inl e, w2) \<longrightarrow>
         fst (convert_pdf_to_epub_endpoint cfg en h file w)
           = Raised (Http (HTTPException 500 (str_exn e))))
      \<and> (\<forall>w2. pdf_to_epub cfg en (td @ [''input.pdf'']) (td @ [''output.epub''])
                 (converter_start (upload_data file) td w) = (Inr (), w2) \<longrightarrow>
           (\<forall>e w3. send_email_with_attachment cfg en ''Your converted EPUB''
                      ''Attached is the EPUB converted from your PDF.''
                      (KINDLE_EMAIL cfg) (td @ [''output.epub'']) w2 = (Inl e, w3) \<longrightarrow>
              fst (convert_pdf_to_epub_endpoint cfg en h file w)
                = Raised (Http (HTTPException 502 (str_exn e))))
           \<and> (\<forall>w3. send_email_with_attachment cfg en ''Your converted EPUB''
                      ''Attached is the EPUB converted from your PDF.''
                      (KINDLE_EMAIL cfg) (td @ [''output.epub'']) w2 = (Inr (), w3) \<longrightarrow>
              fst (convert_pdf_to_epub_endpoint cfg en h file w)
                = JSONResponse True (KINDLE_EMAIL cfg)
              \<and> status_code (fst (convert_pdf_to_epub_endpoint cfg en h file w)) = 200))"
    if "credential_accepted cfg h" "accepted_type file"
      "\<not> int (length (upload_data file)) > MAX_PDF_BYTES cfg"
      "mkdtemp en (fs w) = Inr td" "write_error en (td @ [''input.pdf'']) = None"
    by (simp add: convert_endpoint_workspace [OF that])
  from c1 c2 c3 c4 c5 show ?thesis by blast
qed

theorem convert_endpoint_responses_witness:
  "fst (convert_pdf_to_epub_endpoint example_config example_env None
          example_upload example_world)
     = Raised (Http (HTTPException 401 ''Missing bearer token''))
   \<and> fst (convert_pdf_to_epub_endpoint example_config example_env (Some ''Bearer nope'')
          example_upload example_world)
     = Raised (Http (HTTPException 403 ''Invalid bearer token''))
   \<and> fst (convert_pdf_to_epub_endpoint example_config example_env (Some ''Bearer s3cret'')
          (example_upload\<lparr>content_type := Some ''text/plain''\<rparr>) example_world)
     = Raised (Http (HTTPException 400 ''Expected PDF, got text/plain''))
   \<and> fst (convert_pdf_to_epub_endpoint example_config example_env (Some ''Bearer s3cret'')
          (example_upload\<lparr>upload_data := [1, 2, 3, 4]\<rparr>) example_world)
     = Raised (Http (HTTPException 413 ''PDF too large''))
   \<and> fst (convert_pdf_to_epub_endpoint example_config
          (example_env\<lparr>subprocess_run := \<lambda>cmd f. (Completed 1 None (Some ''boom''), f)\<rparr>)
          (Some ''Bearer s3cret'') example_upload example_world)
     = Raised (Http (HTTPException 500 ''Conversion failed: boom''))
   \<and> fst (convert_pdf_to_epub_endpoint example_config
          (example_env\<lparr>smtp_server := \<lambda>past a. SMTPFailure ''Connection refused''\<rparr>)
          (Some ''Bearer s3cret'') example_upload example_world)
     = Raised (Http (HTTPException 502 ''Email failed: Connection refused''))
   \<and> fst (convert_pdf_to_epub_endpoint example_config example_env (Some ''Bearer s3cret'')
          example_upload example_world)
     = JSONResponse True ''reader@kindle.example''"
proof -
  let ?ok = "Some ''Bearer s3cret''"
  let ?inp = "example_td @ [''input.pdf'']"
  let ?outp = "example_td @ [''output.epub'']"
  let ?start = "converter_start (upload_data example_upload) example_td example_world"
  let ?broken = "example_env\<lparr>subprocess_run :=
                   \<lambda>cmd f. (Completed 1 None (Some ''boom''), f)\<rparr>"
  let ?refusing = "example_env\<lparr>smtp_server :=
                   \<lambda>past a. SMTPFailure ''Connection refused''\<rparr>"
  have h1: "credential_missing_or_malformed None" by code_simp
  have r1: "fst (convert_pdf_to_epub_endpoint example_config example_env None
          example_upload example_world)
     = Raised (Http (HTTPException 401 ''Missing bearer token''))"
    by (rule convert_endpoint_responses [THEN conjunct1, THEN mp, OF h1])
  have h2: "credential_wrong example_config (Some ''Bearer nope'')" by code_simp
  have r2: "fst (convert_pdf_to_epub_endpoint example_config example_env
          (Some ''Bearer nope'') example_upload example_world)
     = Raised (Http (HTTPException 403 ''Invalid bearer token''))"
    by (rule convert_endpoint_responses [THEN conjunct2, THEN conjunct1, THEN mp, OF h2])
  have h3: "credential_accepted example_config ?ok
      \<and> \<not> accepted_type (example_upload\<lparr>content_type := Some ''text/plain''\<rparr>)"
    by code_simp
  have r3: "fst (convert_pdf_to_epub_endpoint example_config example_env ?ok
          (example_upload\<lparr>content_type := Some ''text/plain''\<rparr>) example_world)
     = Raised (Http (HTTPException 400 ''Expected PDF, got text/plain''))"
    using convert_endpoint_responses [THEN conjunct2, THEN conjunct2, THEN conjunct1,
        THEN mp, OF h3, of example_env example_world]
    by (simp add: fmt_opt_def)
  have h4: "credential_accepted example_config ?ok
      \<and> accepted_type (example_upload\<lparr>upload_data := [1, 2, 3, 4]\<rparr>)
      \<and> int (length (upload_data (example_upload\<lparr>upload_data := [1, 2, 3, 4]\<rparr>)))
          > MAX_PDF_BYTES example_config"
    by code_simp
  have r4: "fst (convert_pdf_to_epub_endpoint example_config example_env ?ok
          (example_upload\<lparr>upload_data := [1, 2, 3, 4]\<rparr>) example_world)
     = Raised (Http (HTTPException 413 ''PDF too large''))"
    by (rule convert_endpoint_responses [THEN conjunct2, THEN conjunct2, THEN conjunct2,
        THEN conjunct1, THEN mp, OF h4])
  note ws = convert_endpoint_responses [THEN conjunct2, THEN conjunct2, THEN conjunct2,
        THEN conjunct2, THEN mp]
  have h5: "credential_accepted example_config ?ok \<and> accepted_type example_upload
      \<and> \<not> int (length (upload_data example_upload)) > MAX_PDF_BYTES example_config
      \<and> mkdtemp ?broken (fs example_world) = Inr example_td
      \<and> write_error ?broken ?inp = None"
    by code_simp
  have "fst (pdf_to_epub example_config ?broken ?inp ?outp ?start)
      = Inl (RuntimeError ''Conversion failed: boom'')"
    by code_simp
  then have c5: "pdf_to_epub example_config ?broken ?inp ?outp ?start
      = (Inl (RuntimeError ''Conversion failed: boom''),
         snd (pdf_to_epub example_config ?broken ?inp ?outp ?start))"
    by (metis prod.collapse)
  have r5: "fst (convert_pdf_to_epub_endpoint example_config ?broken ?ok
          example_upload example_world)
     = Raised (Http (HTTPException 500 ''Conversion failed: boom''))"
    using ws [OF h5, THEN conjunct1, rule_format, OF c5] by simp
  have h6: "credential_accepted example_config ?ok \<and> accepted_type example_upload
      \<and> \<not> int (length (upload_data example_upload)) > MAX_PDF_BYTES example_config
      \<and> mkdtemp ?refusing (fs example_world) = Inr example_td
      \<and> write_error ?refusing ?inp = None"
    by code_simp
  let ?conv6 = "snd (pdf_to_epub example_config ?refusing ?inp ?outp ?start)"
  have "fst (pdf_to_epub example_config ?refusing ?inp ?outp ?start) = Inr ()"
    by code_simp
  then have c6: "pdf_to_epub example_config ?refusing ?inp ?outp ?start = (Inr (), ?conv6)"
    by (metis prod.collapse)
  have "fst (send_email_with_attachment example_config ?refusing ''Your converted EPUB''
               ''Attached is the EPUB converted from your PDF.''
               (KINDLE_EMAIL example_config) ?outp ?conv6)
      = Inl (RuntimeError ''Email failed: Connection refused'')"
    by code_simp
  then have d6: "send_email_with_attachment example_config ?refusing ''Your converted EPUB''
               ''Attached is the EPUB converted from your PDF.''
               (KINDLE_EMAIL example_config) ?outp ?conv6
      = (Inl (RuntimeError ''Email failed: Connection refused''),
         snd (send_email_with_attachment example_config ?refusing ''Your converted EPUB''
               ''Attached is the EPUB converted from your PDF.''
               (KINDLE_EMAIL example_config) ?outp ?conv6))"
    by (metis prod.collapse)
  have r6: "fst (convert_pdf_to_epub_endpoint example_config ?refusing ?ok
          example_upload example_world)
     = Raised (Http (HTTPException 502 ''Email failed: Connection refused''))"
    using ws [OF h6, THEN conjunct2, rule_format, OF c6, THEN conjunct1, rule_format, OF d6]
    by simp
  have h7: "credential_accepted example_config ?ok \<and> accepted_type example_upload
      \<and> \<not> int (length (upload_data example_upload)) > MAX_PDF_BYTES example_config
      \<and> mkdtemp example_env (fs example_world) = Inr example_td
      \<and> write_error example_env ?inp = None"
    by code_simp
  let ?conv7 = "snd (pdf_to_epub example_config example_env ?inp ?outp ?start)"
  have "fst (pdf_to_epub example_config example_env ?inp ?outp ?start) = Inr ()"
    by code_simp
  then have c7: "pdf_to_epub example_config example_env ?inp ?outp ?start = (Inr (), ?conv7)"
    by (metis prod.collapse)
  have "fst (send_email_with_attachment example_config example_env ''Your converted EPUB''
               ''Attached is the EPUB converted from your PDF.''
               (KINDLE_EMAIL example_config) ?outp ?conv7) = Inr ()"
    by code_simp
  then have d7: "send_email_with_attachment example_config example_env ''Your converted EPUB''
               ''Attached is the EPUB converted from your PDF.''
               (KINDLE_EMAIL example_config) ?outp ?conv7
      = (Inr (),
         snd (send_email_with_attachment example_config example_env ''Your converted EPUB''
               ''Attached is the EPUB converted from your PDF.''
               (KINDLE_EMAIL example_config) ?outp ?conv7))"
    by (metis prod.collapse)
  have r7: "fst (convert_pdf_to_epub_endpoint example_config example_env ?ok
          example_upload example_world)
     = JSONResponse True ''reader@kindle.example''"
    using ws [OF h7, THEN conjunct2, rule_format, OF c7, THEN conjunct2, rule_format, OF d7]
    by (simp add: example_config_def)
  show ?thesis
    by (intro conjI r1 r2 r3 r4 r5 r6 r7)
qed

text \<open>
  Claim C6.  Upload validation checks the declared content type before the size: an
  authorized request whose content type is neither \<open>application/pdf\<close> nor
  \<open>application/octet-stream\<close> is answered 400 whatever the length of its payload, the
  world untouched; and the answer 413 is only ever given to a request whose content type
  passed the type check.
\<close>

theorem type_checked_before_size:
  "(credential_accepted cfg h \<and> \<not> accepted_type file \<longrightarrow>
      convert_pdf_to_epub_endpoint cfg en h file w
        = (Raised (Http (HTTPException 400
             (''Expected PDF, got '' @ fmt_opt (content_type file)))), w))
   \<and> (status_code (fst (convert_pdf_to_epub_endpoint cfg en h file w)) = 413 \<longrightarrow>
        accepted_type file)"
proof -
  have a: "credential_accepted cfg h \<and> \<not> accepted_type file \<longrightarrow>
      convert_pdf_to_epub_endpoint cfg en h file w
        = (Raised (Http (HTTPException 400
             (''Expected PDF, got '' @ fmt_opt (content_type file)))), w)"
    by (simp add: convert_endpoint_early credential_trichotomy)
  have b: "accepted_type file"
    if s: "status_code (fst (convert_pdf_to_epub_endpoint cfg en h file w)) = 413"
  proof (rule ccontr)
    assume "\<not> accepted_type file"
    with s show False
      by (auto simp: convert_endpoint_early split: if_splits)
  qed
  from a b show ?thesis by blast
qed

theorem type_checked_before_size_witness:
  "credential_accepted example_config (Some ''Bearer s3cret'')
   \<and> \<not> accepted_type (example_upload\<lparr>content_type := None, upload_data := [1, 2, 3, 4]\<rparr>)
   \<and> int (length (upload_data
         (example_upload\<lparr>content_type := None, upload_data := [1, 2, 3, 4]\<rparr>)))
       > MAX_PDF_BYTES example_config
   \<and> convert_pdf_to_epub_endpoint example_config example_env (Some ''Bearer s3cret'')
        (example_upload\<lparr>content_type := None, upload_data := [1, 2, 3, 4]\<rparr>) example_world
       = (Raised (Http (HTTPException 400 ''Expected PDF, got None'')), example_world)
   \<and> status_code (fst (convert_pdf_to_epub_endpoint example_config example_env
        (Some ''Bearer s3cret'')
        (example_upload\<lparr>content_type := Some ''application/octet-stream'',
                         upload_data := [1, 2, 3, 4]\<rparr>) example_world)) = 413
   \<and> accepted_type (example_upload\<lparr>content_type := Some ''application/octet-stream'',
                         upload_data := [1, 2, 3, 4]\<rparr>)"
proof -
  let ?untyped = "example_upload\<lparr>content_type := None, upload_data := [1, 2, 3, 4]\<rparr>"
  let ?binary = "example_upload\<lparr>content_type := Some ''application/octet-stream'',
                         upload_data := [1, 2, 3, 4]\<rparr>"
  have h: "credential_accepted example_config (Some ''Bearer s3cret'')
      \<and> \<not> accepted_type ?untyped"
    by code_simp
  have big: "int (length (upload_data ?untyped)) > MAX_PDF_BYTES example_config"
    by code_simp
  have r: "convert_pdf_to_epub_endpoint example_config example_env (Some ''Bearer s3cret'')
        ?untyped example_world
       = (Raised (Http (HTTPException 400 ''Expected PDF, got None'')), example_world)"
    using type_checked_before_size [THEN conjunct1, THEN mp, OF h,
        of example_env example_world]
    by (simp add: fmt_opt_def)
  have s: "status_code (fst (convert_pdf_to_epub_endpoint example_config example_env
        (Some ''Bearer s3cret'') ?binary example_world)) = 413"
    by code_simp
  have t: "accepted_type ?binary"
    by (rule type_checked_before_size [THEN conjunct2, THEN mp, OF s])
  show ?thesis
    using h big r s t by (intro conjI) blast+
qed

text \<open>
  Claim C5, as amended.  For every request that reaches upload validation (its
  credential is accepted) with a content type of the accepted set, a payload longer than
  the configured maximum is answered 413 "PDF too large", the world untouched, whichever
  of the accepted types was declared.
\<close>

theorem oversized_accepted_type_413:
  "credential_accepted cfg h \<and> accepted_type file
     \<and> int (length (upload_data file)) > MAX_PDF_BYTES cfg \<longrightarrow>
   convert_pdf_to_epub_endpoint cfg en h file w
     = (Raised (Http (HTTPException 413 ''PDF too large'')), w)
   \<and> status_code (fst (convert_pdf_to_epub_endpoint cfg en h file w)) = 413"
  by (simp add: convert_endpoint_early credential_trichotomy)

theorem oversized_accepted_type_413_witness:
  "credential_accepted example_config (Some ''Bearer s3cret'')
   \<and> accepted_type (example_upload\<lparr>upload_data := [1, 2, 3, 4]\<rparr>)
   \<and> int (length (upload_data (example_upload\<lparr>upload_data := [1, 2, 3, 4]\<rparr>)))
       > MAX_PDF_BYTES example_config
   \<and> convert_pdf_to_epub_endpoint example_config example_env (Some ''Bearer s3cret'')
        (example_upload\<lparr>upload_data := [1, 2, 3, 4]\<rparr>) example_world
       = (Raised (Http (HTTPException 413 ''PDF too large'')), example_world)
   \<and> status_code (fst (convert_pdf_to_epub_endpoint example_config example_env
        (Some ''Bearer s3cret'')
        (example_upload\<lparr>upload_data := [1, 2, 3, 4]\<rparr>) example_world)) = 413"
proof -
  have h: "credential_accepted example_config (Some ''Bearer s3cret'')
      \<and> accepted_type (example_upload\<lparr>upload_data := [1, 2, 3, 4]\<rparr>)
      \<and> int (length (upload_data (example_upload\<lparr>upload_data := [1, 2, 3, 4]\<rparr>)))
          > MAX_PDF_BYTES example_config"
    by code_simp
  from h oversized_accepted_type_413 [THEN mp, OF h, of example_env example_world]
  show ?thesis by blast
qed

text \<open>
  The claim as first stated (413 for every oversized payload, whatever the declared
  content type) fails: a four-byte payload against a limit of three bytes, declared
  \<open>text/plain\<close> by an authorized client, is answered 400.
\<close>

theorem oversized_unsupported_type_counterexample:
  "int (length (upload_data
      (example_upload\<lparr>content_type := Some ''text/plain'', upload_data := [1, 2, 3, 4]\<rparr>)))
     > MAX_PDF_BYTES example_config
   \<and> fst (convert_pdf_to_epub_endpoint example_config example_env (Some ''Bearer s3cret'')
        (example_upload\<lparr>content_type := Some ''text/plain'', upload_data := [1, 2, 3, 4]\<rparr>)
        example_world)
       = Raised (Http (HTTPException 400 ''Expected PDF, got text/plain''))
   \<and> status_code (fst (convert_pdf_to_epub_endpoint example_config example_env
        (Some ''Bearer s3cret'')
        (example_upload\<lparr>content_type := Some ''text/plain'', upload_data := [1, 2, 3, 4]\<rparr>)
        example_world)) \<noteq> 413"
  by code_simp

lemma last_chars_length: "length (last_chars n s) = min n (length s)"
  by (auto simp: last_chars_def)

lemma last_chars_suffix: "suffix (last_chars n s) s"
  by (simp add: last_chars_def suffix_drop)

text \<open>
  Claim C7.  When the converter command starts and ends with a non-zero status,
  \<open>pdf_to_epub\<close> fails with "Conversion failed: " followed by an excerpt of the standard
  error text; the excerpt is the end of that text, at most 2000 characters long (exactly
  2000 when the text is longer), and the response of \<open>POST /convert\<close> is 500 with that
  same detail.
\<close>

theorem tool_failed_excerpt:
  assumes "credential_accepted cfg h" and "accepted_type file"
    and "\<not> int (length (upload_data file)) > MAX_PDF_BYTES cfg"
    and "mkdtemp en (fs w) = Inr td"
    and "write_error en (td @ [''input.pdf'']) = None"
    and "subprocess_run en
           [EBOOK_CONVERT_BIN cfg, path_str (td @ [''input.pdf'']),
            path_str (td @ [''output.epub''])]
           (fs (converter_start (upload_data file) td w))
         = (Completed returncode out err, f')"
    and "returncode \<noteq> 0"
  shows "fst (pdf_to_epub cfg en (td @ [''input.pdf'']) (td @ [''output.epub''])
               (converter_start (upload_data file) td w))
           = Inl (RuntimeError (''Conversion failed: '' @ last_chars 2000 (or_empty err)))
    \<and> fst (convert_pdf_to_epub_endpoint cfg en h file w)
           = Raised (Http (HTTPException 500
               (''Conversion failed: '' @ last_chars 2000 (or_empty err))))
    \<and> length (last_chars 2000 (or_empty err)) \<le> 2000
    \<and> suffix (last_chars 2000 (or_empty err)) (or_empty err)
    \<and> (2000 \<le> length (or_empty err) \<longrightarrow> length (last_chars 2000 (or_empty err)) = 2000)
    \<and> (length (or_empty err) \<le> 2000 \<longrightarrow> last_chars 2000 (or_empty err) = or_empty err)"
proof -
  let ?conv = "pdf_to_epub cfg en (td @ [''input.pdf'']) (td @ [''output.epub''])
               (converter_start (upload_data file) td w)"
  have conv: "fst ?conv
      = Inl (RuntimeError (''Conversion failed: '' @ last_chars 2000 (or_empty err)))"
    using assms(6,7) by (simp add: pdf_to_epub_completed)
  then have eq: "?conv
      = (Inl (RuntimeError (''Conversion failed: '' @ last_chars 2000 (or_empty err))),
         snd ?conv)"
    by (metis prod.collapse)
  have resp: "fst (convert_pdf_to_epub_endpoint cfg en h file w)
           = Raised (Http (HTTPException 500
               (''Conversion failed: '' @ last_chars 2000 (or_empty err))))"
    unfolding convert_endpoint_workspace [OF assms(1-5)]
    by (subst eq) simp
  have len: "length (last_chars 2000 (or_empty err)) \<le> 2000"
    "2000 \<le> length (or_empty err) \<longrightarrow> length (last_chars 2000 (or_empty err)) = 2000"
    by (simp_all add: last_chars_length)
  have whole: "length (or_empty err) \<le> 2000 \<longrightarrow> last_chars 2000 (or_empty err) = or_empty err"
    by (simp add: last_chars_def)
  from conv resp len whole last_chars_suffix show ?thesis by blast
qed

theorem tool_failed_excerpt_witness:
  "fst (convert_pdf_to_epub_endpoint example_config
          (example_env\<lparr>subprocess_run := \<lambda>cmd f. (Completed 1 None (Some ''boom''), f)\<rparr>)
          (Some ''Bearer s3cret'') example_upload example_world)
     = Raised (Http (HTTPException 500 ''Conversion failed: boom''))
   \<and> fst (convert_pdf_to_epub_endpoint example_config
          (example_env\<lparr>subprocess_run :=
             \<lambda>cmd f. (Completed (- 9) None (Some (''y'' @ replicate 2000 CHR ''x'')), f)\<rparr>)
          (Some ''Bearer s3cret'') example_upload example_world)
     = Raised (Http (HTTPException 500 (''Conversion failed: '' @ replicate 2000 CHR ''x'')))"
proof -
  let ?ok = "Some ''Bearer s3cret''"
  let ?inp = "example_td @ [''input.pdf'']"
  let ?outp = "example_td @ [''output.epub'']"
  let ?start = "converter_start (upload_data example_upload) example_td example_world"
  let ?short = "example_env\<lparr>subprocess_run :=
                   \<lambda>cmd f. (Completed 1 None (Some ''boom''), f)\<rparr>"
  let ?long = "example_env\<lparr>subprocess_run :=
             \<lambda>cmd f. (Completed (- 9) None (Some (''y'' @ replicate 2000 CHR ''x'')), f)\<rparr>"
  have a: "credential_accepted example_config ?ok" by code_simp
  have b: "accepted_type example_upload" by code_simp
  have c: "\<not> int (length (upload_data example_upload)) > MAX_PDF_BYTES example_config"
    by code_simp
  have d1: "mkdtemp ?short (fs example_world) = Inr example_td"
    and d2: "mkdtemp ?long (fs example_world) = Inr example_td"
    by (simp_all add: example_env_def)
  have e1: "write_error ?short ?inp = None" and e2: "write_error ?long ?inp = None"
    by (simp_all add: example_env_def)
  have f1: "subprocess_run ?short
        [EBOOK_CONVERT_BIN example_config, path_str ?inp, path_str ?outp] (fs ?start)
      = (Completed 1 None (Some ''boom''), fs ?start)"
    by simp
  have f2: "subprocess_run ?long
        [EBOOK_CONVERT_BIN example_config, path_str ?inp, path_str ?outp] (fs ?start)
      = (Completed (- 9) None (Some (''y'' @ replicate 2000 CHR ''x'')), fs ?start)"
    by simp
  have g1: "(1::int) \<noteq> 0" and g2: "(- 9::int) \<noteq> 0"
    by simp_all
  have cut: "last_chars 2000 (or_empty (Some (''y'' @ replicate 2000 CHR ''x'')))
      = replicate 2000 CHR ''x''"
    by (simp add: last_chars_def or_empty_def)
  have whole: "last_chars 2000 (or_empty (Some ''boom'')) = ''boom''"
    by (simp add: last_chars_def or_empty_def)
  note t1 = tool_failed_excerpt [OF a b c d1 e1 f1 g1, THEN conjunct2, THEN conjunct1]
  note t2 = tool_failed_excerpt [OF a b c d2 e2 f2 g2, THEN conjunct2, THEN conjunct1]
  have r1: "fst (convert_pdf_to_epub_endpoint example_config ?short ?ok example_upload
                  example_world)
     = Raised (Http (HTTPException 500 ''Conversion failed: boom''))"
    using t1 unfolding whole by simp
  have r2: "fst (convert_pdf_to_epub_endpoint example_config ?long ?ok example_upload
                  example_world)
     = Raised (Http (HTTPException 500 (''Conversion failed: '' @ replicate 2000 CHR ''x'')))"
    using t2 unfolding cut by simp
  show ?thesis
    by (intro conjI r1 r2)
qed

section \<open>Properties of the workspace\<close>

lemma convert_body_events:
  assumes "convert_body cfg en raw td w1 = (r, w2)"
  shows "\<exists>mid. events w2 = events w1 @ mid \<and> (\<forall>e \<in> set mid. \<not> is_workspace_event e)"
proof (cases "write_error en (td @ [''input.pdf''])")
  case (Some m)
  with assms have "w2 = w1"
    by (auto simp: convert_body_def write_bytes_def Let_def)
  then show ?thesis by simp
next
  case None
  let ?wa = "w1\<lparr>fs := (fs w1)(td @ [''input.pdf''] \<mapsto> File raw)\<rparr>"
  obtain c wb where conv:
    "pdf_to_epub cfg en (td @ [''input.pdf'']) (td @ [''output.epub'']) ?wa = (c, wb)"
    by (cases "pdf_to_epub cfg en (td @ [''input.pdf'']) (td @ [''output.epub'']) ?wa")
  from pdf_to_epub_world [OF conv] have wb: "events wb = events w1
      @ [Run [EBOOK_CONVERT_BIN cfg, path_str (td @ [''input.pdf'']),
              path_str (td @ [''output.epub''])]]"
    by simp
  show ?thesis
  proof (cases c)
    case (Inl e)
    with assms None conv have "w2 = wb"
      by (auto simp: convert_body_def write_bytes_def Let_def)
    with wb show ?thesis by (simp add: is_workspace_event_def)
  next
    case (Inr u)
    obtain d wc where send:
      "send_email_with_attachment cfg en ''Your converted EPUB''
         ''Attached is the EPUB converted from your PDF.''
         (KINDLE_EMAIL cfg) (td @ [''output.epub'']) wb = (d, wc)"
      by (cases "send_email_with_attachment cfg en ''Your converted EPUB''
         ''Attached is the EPUB converted from your PDF.''
         (KINDLE_EMAIL cfg) (td @ [''output.epub'']) wb")
    with assms None conv Inr have "w2 = wc"
      by (auto simp: convert_body_def write_bytes_def Let_def split: sum.splits)
    with send_email_world [OF send] wb
    have "events w2 = events w1
      @ (Run [EBOOK_CONVERT_BIN cfg, path_str (td @ [''input.pdf'']),
              path_str (td @ [''output.epub''])] # new_events wb wc)"
      and "\<forall>e \<in> set (new_events wb wc). \<not> is_workspace_event e"
      by simp_all
    then show ?thesis
      by (intro exI [of _ "Run [EBOOK_CONVERT_BIN cfg, path_str (td @ [''input.pdf'']),
              path_str (td @ [''output.epub''])] # new_events wb wc"])
         (simp add: is_workspace_event_def)
  qed
qed

lemma workspace_block_cases:
  assumes "with_TemporaryDirectory en (convert_body cfg en raw) w = (r, w')"
  shows "(w' = w \<and> (\<exists>m. mkdtemp en (fs w) = Inl m))
    \<or> (\<exists>td mid. mkdtemp en (fs w) = Inr td
          \<and> events w' = events w @ Mkdtemp td # mid @ [Rmtree td]
          \<and> (\<forall>e \<in> set mid. \<not> is_workspace_event e)
          \<and> (\<forall>p. prefix td p \<longrightarrow> fs w' p = None))"
proof (cases "mkdtemp en (fs w)")
  case (Inl m)
  with assms show ?thesis by (simp add: with_TemporaryDirectory_def)
next
  case (Inr td)
  let ?w1 = "w\<lparr>fs := (fs w)(td \<mapsto> Dir), events := events w @ [Mkdtemp td]\<rparr>"
  obtain rb w2 where body: "convert_body cfg en raw td ?w1 = (rb, w2)"
    by (cases "convert_body cfg en raw td ?w1")
  from convert_body_events [OF body] obtain mid where
    mid: "events w2 = events ?w1 @ mid" "\<forall>e \<in> set mid. \<not> is_workspace_event e"
    by blast
  from assms Inr body have w': "w' = rmtree td w2"
    by (simp add: with_TemporaryDirectory_def)
  have "events w' = events w @ Mkdtemp td # mid @ [Rmtree td]"
    using w' mid(1) by (simp add: rmtree_def)
  moreover have "\<forall>p. prefix td p \<longrightarrow> fs w' p = None"
    using w' by (simp add: rmtree_def)
  ultimately show ?thesis using Inr mid(2) by blast
qed

lemma count_list_no_workspace:
  assumes "\<forall>e \<in> set mid. \<not> is_workspace_event e"
  shows "count_list mid (Mkdtemp t) = 0" and "count_list mid (Rmtree t) = 0"
proof -
  have "Mkdtemp t \<notin> set mid" "Rmtree t \<notin> set mid"
    using assms by (auto simp: is_workspace_event_def)
  then show "count_list mid (Mkdtemp t) = 0" and "count_list mid (Rmtree t) = 0"
    by (simp_all add: count_list_0_iff)
qed

text \<open>
  Claim C3.  Whatever the outcome of a request to \<open>POST /convert\<close>, every workspace
  directory allocated during the request is removed exactly once, as the last action of
  the request, and nothing at or below its path remains in the filesystem afterwards.  A
  request that passes the checks and gets a directory from \<open>mkdtemp\<close> does allocate it,
  so this covers success, the failures of conversion and delivery, and an exception of
  writing the input file.
\<close>

theorem workspace_released_once:
  assumes "convert_pdf_to_epub_endpoint cfg en h file w = (r, w')"
  shows "events w' = events w @ new_events w w'
    \<and> (\<forall>td. count_list (new_events w w') (Rmtree td)
               = count_list (new_events w w') (Mkdtemp td)
            \<and> count_list (new_events w w') (Mkdtemp td) \<le> 1
            \<and> (Mkdtemp td \<in> set (new_events w w') \<longrightarrow>
                 hd (new_events w w') = Mkdtemp td
                 \<and> last (new_events w w') = Rmtree td
                 \<and> (\<forall>p. prefix td p \<longrightarrow> fs w' p = None)))
    \<and> (\<forall>td. credential_accepted cfg h \<and> accepted_type file
            \<and> \<not> int (length (upload_data file)) > MAX_PDF_BYTES cfg
            \<and> mkdtemp en (fs w) = Inr td \<longrightarrow> Mkdtemp td \<in> set (new_events w w'))"
proof (cases "credential_accepted cfg h \<and> accepted_type file
            \<and> \<not> int (length (upload_data file)) > MAX_PDF_BYTES cfg")
  case False
  with assms have "w' = w"
    by (auto simp: convert_endpoint_early credential_trichotomy split: if_splits)
  with False show ?thesis by (simp add: new_events_def)
next
  case True
  obtain rb wb where block:
    "with_TemporaryDirectory en (convert_body cfg en (upload_data file)) w = (rb, wb)"
    by (cases "with_TemporaryDirectory en (convert_body cfg en (upload_data file)) w")
  with assms True have w': "w' = wb"
    by (auto simp: convert_endpoint_early credential_trichotomy split: option.splits)
  from workspace_block_cases [OF block] show ?thesis
  proof (elim disjE exE conjE)
    fix m
    assume "wb = w" "mkdtemp en (fs w) = Inl m"
    with w' show ?thesis by (simp add: new_events_def)
  next
    fix td0 mid
    assume mk: "mkdtemp en (fs w) = Inr td0"
      and ev: "events wb = events w @ Mkdtemp td0 # mid @ [Rmtree td0]"
      and mid: "\<forall>e \<in> set mid. \<not> is_workspace_event e"
      and gone: "\<forall>p. prefix td0 p \<longrightarrow> fs wb p = None"
    from ev w' have new: "new_events w w' = Mkdtemp td0 # mid @ [Rmtree td0]"
      by (simp add: new_events_def)
    have notin: "Mkdtemp t \<notin> set mid" for t
      using mid by (auto simp: is_workspace_event_def)
    show ?thesis
      unfolding new
      using ev w' mk gone notin count_list_no_workspace [OF mid]
      by auto
  qed
qed

theorem workspace_released_once_witness:
  "fst (convert_pdf_to_epub_endpoint example_config example_env (Some ''Bearer s3cret'')
          example_upload example_world) = JSONResponse True ''reader@kindle.example''
   \<and> count_list (new_events example_world
          (snd (convert_pdf_to_epub_endpoint example_config example_env
                  (Some ''Bearer s3cret'') example_upload example_world)))
        (Rmtree example_td) = 1
   \<and> last (new_events example_world
          (snd (convert_pdf_to_epub_endpoint example_config example_env
                  (Some ''Bearer s3cret'') example_upload example_world)))
       = Rmtree example_td
   \<and> fs (snd (convert_pdf_to_epub_endpoint example_config example_env
                  (Some ''Bearer s3cret'') example_upload example_world))
        (example_td @ [''output.epub'']) = None
   \<and> fst (convert_pdf_to_epub_endpoint example_config
          (example_env\<lparr>write_error := \<lambda>p. Some ''No space left on device''\<rparr>)
          (Some ''Bearer s3cret'') example_upload example_world)
       = Raised (Exn (OSError ''No space left on device''))
   \<and> count_list (new_events example_world
          (snd (convert_pdf_to_epub_endpoint example_config
                  (example_env\<lparr>write_error := \<lambda>p. Some ''No space left on device''\<rparr>)
                  (Some ''Bearer s3cret'') example_upload example_world)))
        (Rmtree example_td) = 1
   \<and> fs (snd (convert_pdf_to_epub_endpoint example_config
                  (example_env\<lparr>write_error := \<lambda>p. Some ''No space left on device''\<rparr>)
                  (Some ''Bearer s3cret'') example_upload example_world))
        example_td = None"
proof -
  let ?ok = "Some ''Bearer s3cret''"
  let ?full = "example_env\<lparr>write_error := \<lambda>p. Some ''No space left on device''\<rparr>"
  let ?good = "convert_pdf_to_epub_endpoint example_config example_env ?ok
                 example_upload example_world"
  let ?bad = "convert_pdf_to_epub_endpoint example_config ?full ?ok
                 example_upload example_world"
  have checks: "credential_accepted example_config ?ok \<and> accepted_type example_upload
      \<and> \<not> int (length (upload_data example_upload)) > MAX_PDF_BYTES example_config"
    by code_simp
  have mk: "mkdtemp example_env (fs example_world) = Inr example_td"
    "mkdtemp ?full (fs example_world) = Inr example_td"
    by (simp_all add: example_env_def)
  have below: "prefix example_td (example_td @ [''output.epub''])"
    "prefix example_td example_td"
    by simp_all
  have one: "count_list xs (Rmtree example_td) = 1"
    if "count_list xs (Rmtree example_td) = count_list xs (Mkdtemp example_td)"
      and "count_list xs (Mkdtemp example_td) \<le> 1"
      and "Mkdtemp example_td \<in> set xs" for xs
  proof -
    from that(3) have "count_list xs (Mkdtemp example_td) \<noteq> 0"
      by (simp add: count_list_0_iff)
    with that(1,2) show ?thesis by arith
  qed
  note g = workspace_released_once [OF surjective_pairing, of example_config example_env
      ?ok example_upload example_world]
  note b = workspace_released_once [OF surjective_pairing, of example_config ?full
      ?ok example_upload example_world]
  have r1: "fst ?good = JSONResponse True ''reader@kindle.example''"
    by code_simp
  have r2: "fst ?bad = Raised (Exn (OSError ''No space left on device''))"
    by code_simp
  from g checks mk(1) have in1: "Mkdtemp example_td \<in> set (new_events example_world (snd ?good))"
    by blast
  from b checks mk(2) have in2: "Mkdtemp example_td \<in> set (new_events example_world (snd ?bad))"
    by blast
  from g in1 have g': "count_list (new_events example_world (snd ?good)) (Rmtree example_td)
        = count_list (new_events example_world (snd ?good)) (Mkdtemp example_td)"
    "count_list (new_events example_world (snd ?good)) (Mkdtemp example_td) \<le> 1"
    "last (new_events example_world (snd ?good)) = Rmtree example_td"
    "\<forall>p. prefix example_td p \<longrightarrow> fs (snd ?good) p = None"
    by blast+
  from b in2 have b': "count_list (new_events example_world (snd ?bad)) (Rmtree example_td)
        = count_list (new_events example_world (snd ?bad)) (Mkdtemp example_td)"
    "count_list (new_events example_world (snd ?bad)) (Mkdtemp example_td) \<le> 1"
    "\<forall>p. prefix example_td p \<longrightarrow> fs (snd ?bad) p = None"
    by blast+
  show ?thesis
    using r1 r2 one [OF g'(1,2) in1] g'(3) g'(4) [rule_format, OF below(1)]
      one [OF b'(1,2) in2] b'(3) [rule_format, OF below(2)]
    by (intro conjI)
qed

section \<open>Properties of the test endpoint\<close>






text \<open>
  Claim C9.  The claim is that \<open>POST /test-email\<close> sends a test message without
  attachment to the configured recipient.  Run on the concrete installation, where
  \<open>/dev/null\<close> exists and the mail server accepts everything, the handler transmits one
  message to the configured recipient that carries an attachment: the empty file, named
  \<open>null\<close>.  And when the first connection is refused and the second accepted, the one
  message transmitted goes to \<open>"ozzy.dave@gmail.com"\<close>, while the response names the
  configured recipient.
\<close>

theorem test_email_runs:
  "fst (test_email example_config example_env (Some ''Bearer s3cret'') example_world)
     = JSONResponse True ''reader@kindle.example''
   \<and> events (snd (test_email example_config example_env (Some ''Bearer s3cret'')
                    example_world))
     = [Connect ''smtp.example.org'' 587 30, StartTLS, Login ''mailer'' ''pw'',
        SendMessage
          \<lparr>msg_From = ''mailer@example.org'', msg_To = ''reader@kindle.example'',
           msg_Subject = ''SMTP test (no attachment)'',
           msg_content = ''If you received this, SMTP is working.'',
           msg_attachments =
             [\<lparr>payload = [], maintype = ''application'', subtype = ''epub+zip'',
               filename = ''null''\<rparr>]\<rparr>,
        Quit]
   \<and> fst (test_email example_config
          (example_env\<lparr>smtp_server :=
             \<lambda>past a. if past = [] then SMTPFailure ''Connection refused'' else SMTPOk\<rparr>)
          (Some ''Bearer s3cret'') example_world)
     = JSONResponse True ''reader@kindle.example''
   \<and> events (snd (test_email example_config
          (example_env\<lparr>smtp_server :=
             \<lambda>past a. if past = [] then SMTPFailure ''Connection refused'' else SMTPOk\<rparr>)
          (Some ''Bearer s3cret'') example_world))
     = [Connect ''smtp.example.org'' 587 30,
        Connect ''smtp.example.org'' 587 30, StartTLS, Login ''mailer'' ''pw'',
        SendMessage
          \<lparr>msg_From = ''mailer@example.org'', msg_To = ''ozzy.dave@gmail.com'',
           msg_Subject = ''SMTP test (no attachment)'',
           msg_content = ''If you received this, SMTP is working.'',
           msg_attachments = []\<rparr>,
        Quit]"
  by code_simp

end
